theory Spec2Isabelle
  imports Complex_Main "HOL-Library.Word"
begin

section \<open>Platform types\<close>

text \<open>
  The program targets the Nintendo 3DS (32-bit ARM): \<open>size_t\<close> and \<open>u32\<close> are 32-bit
  unsigned integers and wrap around. A pointer is an address, \<open>0\<close> being \<open>NULL\<close>.
  The program only stores and forwards floating-point values (and the literals
  \<open>0.0f\<close>, \<open>1.0f\<close>, \<open>-1.0f\<close>); it never computes with them, so they are carried as reals.
\<close>

type_synonym size_t = "32 word"
type_synonym u32 = "32 word"
type_synonym addr = nat
type_synonym float = real

text \<open>\<open>C3D_FVec\<close> is four floats \<open>c[0..3]\<close>; \<open>C3D_Mtx\<close> is the four rows \<open>r[0..3]\<close>.\<close>

type_synonym C3D_FVec = "float \<times> float \<times> float \<times> float"
type_synonym C3D_Mtx = "C3D_FVec \<times> C3D_FVec \<times> C3D_FVec \<times> C3D_FVec"

section \<open>Data model (inc/renderer.h)\<close>

record vertex =
  position :: "float \<times> float \<times> float"
  texcoord :: "float \<times> float"
  normal :: "float \<times> float \<times> float"

record material =
  ambient :: C3D_FVec
  diffuse :: C3D_FVec
  specular :: C3D_FVec
  emission :: C3D_FVec

datatype GPU_TEXTURE_FILTER_PARAM = GPU_NEAREST | GPU_LINEAR

text \<open>
  \<open>C3D_Tex\<close> belongs to the graphics library. The model keeps the pointer to the texel
  data (printed by \<open>renderer_register_mesh\<close>), the two filter settings written by
  \<open>C3D_TexSetFilter\<close>, and one opaque number for everything else the importer fills in.
\<close>

record C3D_Tex =
  tex_data :: addr
  tex_image :: nat
  mag_filter :: GPU_TEXTURE_FILTER_PARAM
  min_filter :: GPU_TEXTURE_FILTER_PARAM

text \<open>
  \<open>renderer.c\<close> assigns the pointer returned by \<open>C3D_GetBufInfo()\<close> to \<open>buf_info\<close> and
  passes the field to \<open>BufInfo_Init\<close>, so the field is modelled as that pointer.
\<close>

record mesh =
  material :: material
  vbo_data :: addr
  buf_info :: addr
  texture :: C3D_Tex
  vertex_count :: size_t

record render_request =
  mesh_id :: u32
  model :: C3D_Mtx

record renderer =
  attr_info :: addr
  projection :: C3D_Mtx
  shader_dvlb :: addr
  shader_program :: nat
  uLoc_projection :: int
  uLoc_modelView :: int
  uLoc_lightVec :: int
  uLoc_lightHalfVec :: int
  uLoc_lightClr :: int
  uLoc_material :: int
  requests :: addr
  n_requests :: size_t
  capacity_requests :: size_t
  meshes :: addr
  n_meshes :: size_t
  capacity_meshes :: size_t

text \<open>The cast \<open>(C3D_Mtx*)&mesh->material\<close>: the four light vectors read as four rows.\<close>

definition mtx_of_material :: "material \<Rightarrow> C3D_Mtx" where
  "mtx_of_material m = (ambient m, diffuse m, specular m, emission m)"

section \<open>The graphics backend as a call log\<close>

datatype GPU_SHADER_TYPE = GPU_VERTEX_SHADER | GPU_GEOMETRY_SHADER
datatype GPU_Primitive_t = GPU_TRIANGLES | GPU_TRIANGLE_STRIP | GPU_TRIANGLE_FAN | GPU_GEOMETRY_PRIM
datatype GPU_FORMATS = GPU_BYTE | GPU_UNSIGNED_BYTE | GPU_SHORT | GPU_FLOAT

text \<open>One entry of the context's buffer descriptor, as \<open>BufInfo_Add\<close> records it.\<close>

record buf_cfg =
  buf_data :: addr
  buf_stride :: nat
  buf_attrib_count :: nat
  buf_permutation :: nat

text \<open>
  The calls the renderer makes to the backend. \<open>C3D_DrawArrays\<close> carries, besides its
  three arguments, the contents of the context's buffer descriptor at the moment of the
  call: the buffers the draw fetches its vertices from. \<open>C3D_SetBufInfo\<close> is the
  vertex-buffer bind of the library.
\<close>

datatype gpu_call =
    C3D_BindProgram nat
  | AttrInfo_Init
  | AttrInfo_AddLoader nat GPU_FORMATS nat
  | C3D_TexEnvInit nat
  | C3D_TexEnvSrc nat
  | C3D_TexEnvFunc nat
  | C3D_FVUnifMtx4x4 GPU_SHADER_TYPE int C3D_Mtx
  | C3D_FVUnifSet GPU_SHADER_TYPE int float float float float
  | C3D_TexBind nat C3D_Tex
  | C3D_SetBufInfo "buf_cfg list"
  | C3D_DrawArrays GPU_Primitive_t nat size_t "buf_cfg list"

text \<open>Lines written by \<open>printf\<close>.\<close>

datatype print =
    PrintMesh size_t nat size_t
  | PrintTexture addr
  | PrintRow string float float float float

section \<open>Memory\<close>

text \<open>
  A block of allocated storage records its size in bytes and the whole elements it
  holds. \<open>malloc\<close> is untyped; the model types a block by the pointer type the program
  assigns it to. \<open>RawBlock\<close> is storage no typed pointer of the program designates.
\<close>

datatype block =
    RendererBlock renderer
  | MeshBlock nat "mesh list"
  | RequestBlock nat "render_request list"
  | VertexBlock nat "vertex list"
  | RawBlock nat

text \<open>
  The state of the machine: the store, the highest address handed out so far, the
  bytes \<open>malloc\<close> and \<open>linearAlloc\<close> can still hand out, the backend's call log, the
  context's single buffer descriptor (what \<open>C3D_GetBufInfo()\<close> points to), and the
  console.
\<close>

record world =
  store :: "addr \<rightharpoonup> block"
  brk :: addr
  heap_free :: nat
  linear_free :: nat
  gpu_log :: "gpu_call list"
  ctx_buf_info :: "buf_cfg list"
  console :: "print list"

text \<open>
  What the program takes from outside its own source: the sizes of the structs that
  embed library types, the contents of storage that \<open>malloc\<close> returns (indeterminate in
  C; on this platform every bit pattern is a value, so reading it yields some value),
  and the results of the library calls of \<open>renderer_init\<close> and of the texture importer.
\<close>

record env =
  sizeof_renderer :: nat
  sizeof_mesh :: nat
  sizeof_render_request :: nat
  junk_renderer :: renderer
  junk_mesh :: mesh
  junk_request :: render_request
  Mtx_PerspTilt_80 :: C3D_Mtx
  DVLB_ParseFile :: addr
  shaderProgramInit :: nat
  shaderInstanceGetUniformLocation :: "string \<Rightarrow> int"
  C3D_GetAttrInfo :: addr
  C3D_GetBufInfo :: addr
  Tex3DS_TextureImport :: "8 word list \<Rightarrow> C3D_Tex option"

text \<open>\<open>struct vertex\<close> is eight floats of four bytes.\<close>

definition sizeof_vertex :: nat where
  "sizeof_vertex = 32"

text \<open>
  Outcomes that end the program: \<open>panic\<close> (with the line of the \<open>PANIC\<close> and its
  message), and undefined behaviour of C (a null, dangling or out-of-bounds access).
\<close>

datatype fault = Panic nat string | Undefined string

type_synonym 'a result = "(fault + 'a) \<times> world"

definition and_then :: "'a result \<Rightarrow> ('a \<Rightarrow> world \<Rightarrow> 'b result) \<Rightarrow> 'b result" where
  "and_then m f = (case m of (Inl e, w) \<Rightarrow> (Inl e, w) | (Inr x, w) \<Rightarrow> f x w)"

text \<open>An address designates a block when it is not null, was handed out, and is not freed.\<close>

definition deref :: "world \<Rightarrow> addr \<Rightarrow> block option" where
  "deref w p = (if 0 < p \<and> p \<le> brk w then store w p else None)"

definition block_size :: "env \<Rightarrow> block \<Rightarrow> nat" where
  "block_size E b = (case b of
       RendererBlock r \<Rightarrow> sizeof_renderer E
     | MeshBlock n ms \<Rightarrow> n
     | RequestBlock n rs \<Rightarrow> n
     | VertexBlock n vs \<Rightarrow> n
     | RawBlock n \<Rightarrow> n)"

text \<open>
  \<open>malloc n\<close>: \<open>NULL\<close> when fewer than \<open>n\<close> bytes are left, else a new address holding
  the given block. Neither \<open>malloc\<close> nor \<open>linearAlloc\<close> ever faults.
\<close>

definition malloc :: "nat \<Rightarrow> block \<Rightarrow> world \<Rightarrow> addr result" where
  "malloc n b w =
     (if heap_free w < n then (Inr 0, w)
      else (Inr (Suc (brk w)),
            w\<lparr>store := (store w)(Suc (brk w) \<mapsto> b), brk := Suc (brk w),
              heap_free := heap_free w - n\<rparr>))"

definition linearAlloc :: "nat \<Rightarrow> world \<Rightarrow> addr result" where
  "linearAlloc n w =
     (if linear_free w < n then (Inr 0, w)
      else (Inr (Suc (brk w)),
            w\<lparr>store := (store w)(Suc (brk w) \<mapsto> VertexBlock n []), brk := Suc (brk w),
              linear_free := linear_free w - n\<rparr>))"

text \<open>
  Resizing the contents to \<open>n\<close> bytes keeps the elements that still fit whole and fills
  new room with indeterminate contents.
\<close>

definition resize_cells :: "nat \<Rightarrow> 'a \<Rightarrow> 'a list \<Rightarrow> 'a list" where
  "resize_cells k junk xs = take k xs @ replicate (k - length xs) junk"

definition resized :: "env \<Rightarrow> nat \<Rightarrow> block \<Rightarrow> block option" where
  "resized E n b = (case b of
       RendererBlock r \<Rightarrow> Some (RawBlock n)
     | MeshBlock old ms \<Rightarrow> Some (MeshBlock n (resize_cells (n div sizeof_mesh E) (junk_mesh E) ms))
     | RequestBlock old rs \<Rightarrow>
         Some (RequestBlock n (resize_cells (n div sizeof_render_request E) (junk_request E) rs))
     | VertexBlock old vs \<Rightarrow> None
     | RawBlock old \<Rightarrow> Some (RawBlock n))"

text \<open>
  \<open>realloc p n\<close> for \<open>p \<noteq> NULL\<close>. The C standard ends the lifetime of the old object
  whether or not the storage moves; the model always hands out a new address and frees
  the old one, so a stale pointer is visible as such. On failure it returns \<open>NULL\<close> and
  keeps the old block. A pointer that did not come from \<open>malloc\<close> is undefined behaviour.
\<close>

definition realloc :: "env \<Rightarrow> addr \<Rightarrow> nat \<Rightarrow> world \<Rightarrow> addr result" where
  "realloc E p n w =
     (case deref w p of
        None \<Rightarrow> (Inl (Undefined ''realloc: invalid pointer''), w)
      | Some b \<Rightarrow>
          (case resized E n b of
             None \<Rightarrow> (Inl (Undefined ''realloc: not a malloc block''), w)
           | Some b' \<Rightarrow>
               if heap_free w + block_size E b < n then (Inr 0, w)
               else (Inr (Suc (brk w)),
                     w\<lparr>store := (store w)(p := None, Suc (brk w) \<mapsto> b'), brk := Suc (brk w),
                       heap_free := heap_free w + block_size E b - n\<rparr>)))"

subsection \<open>Typed accesses\<close>

definition get_renderer :: "world \<Rightarrow> addr \<Rightarrow> renderer option" where
  "get_renderer w p = (case deref w p of Some (RendererBlock r) \<Rightarrow> Some r | _ \<Rightarrow> None)"

definition put_renderer :: "addr \<Rightarrow> renderer \<Rightarrow> world \<Rightarrow> world" where
  "put_renderer p r w = w\<lparr>store := (store w)(p \<mapsto> RendererBlock r)\<rparr>"

text \<open>A write through \<open>this\<close>: undefined when \<open>this\<close> does not designate a renderer.\<close>

definition update_this :: "addr \<Rightarrow> (renderer \<Rightarrow> renderer) \<Rightarrow> world \<Rightarrow> unit result" where
  "update_this this f w =
     (case get_renderer w this of
        None \<Rightarrow> (Inl (Undefined ''this''), w)
      | Some r \<Rightarrow> (Inr (), put_renderer this (f r) w))"

definition read_this :: "addr \<Rightarrow> world \<Rightarrow> renderer result" where
  "read_this this w =
     (case get_renderer w this of
        None \<Rightarrow> (Inl (Undefined ''this''), w)
      | Some r \<Rightarrow> (Inr r, w))"

text \<open>\<open>p[i]\<close> for \<open>struct mesh* p\<close>: in bounds when the whole element lies in the block.\<close>

definition read_mesh :: "addr \<Rightarrow> nat \<Rightarrow> world \<Rightarrow> mesh result" where
  "read_mesh p i w =
     (case deref w p of
        Some (MeshBlock n ms) \<Rightarrow>
          if i < length ms then (Inr (ms ! i), w)
          else (Inl (Undefined ''mesh index out of bounds''), w)
      | _ \<Rightarrow> (Inl (Undefined ''invalid mesh pointer''), w))"

definition write_mesh :: "addr \<Rightarrow> nat \<Rightarrow> (mesh \<Rightarrow> mesh) \<Rightarrow> world \<Rightarrow> unit result" where
  "write_mesh p i f w =
     (case deref w p of
        Some (MeshBlock n ms) \<Rightarrow>
          if i < length ms
          then (Inr (), w\<lparr>store := (store w)(p \<mapsto> MeshBlock n (ms[i := f (ms ! i)]))\<rparr>)
          else (Inl (Undefined ''mesh index out of bounds''), w)
      | _ \<Rightarrow> (Inl (Undefined ''invalid mesh pointer''), w))"

definition read_request :: "addr \<Rightarrow> nat \<Rightarrow> world \<Rightarrow> render_request result" where
  "read_request p i w =
     (case deref w p of
        Some (RequestBlock n rs) \<Rightarrow>
          if i < length rs then (Inr (rs ! i), w)
          else (Inl (Undefined ''request index out of bounds''), w)
      | _ \<Rightarrow> (Inl (Undefined ''invalid request pointer''), w))"

definition write_request ::
  "addr \<Rightarrow> nat \<Rightarrow> (render_request \<Rightarrow> render_request) \<Rightarrow> world \<Rightarrow> unit result" where
  "write_request p i f w =
     (case deref w p of
        Some (RequestBlock n rs) \<Rightarrow>
          if i < length rs
          then (Inr (), w\<lparr>store := (store w)(p \<mapsto> RequestBlock n (rs[i := f (rs ! i)]))\<rparr>)
          else (Inl (Undefined ''request index out of bounds''), w)
      | _ \<Rightarrow> (Inl (Undefined ''invalid request pointer''), w))"

text \<open>
  \<open>memcpy(dst, src, n)\<close> into a vertex buffer: undefined when \<open>dst\<close> is not a live
  buffer of at least \<open>n\<close> bytes or the source array is shorter than \<open>n\<close> bytes.
\<close>

definition memcpy_vertices :: "addr \<Rightarrow> vertex list \<Rightarrow> nat \<Rightarrow> world \<Rightarrow> unit result" where
  "memcpy_vertices dst src n w =
     (case deref w dst of
        Some (VertexBlock cap vs) \<Rightarrow>
          if n \<le> cap \<and> n \<le> sizeof_vertex * length src
          then (Inr (), w\<lparr>store := (store w)(dst \<mapsto>
                  VertexBlock cap (take (n div sizeof_vertex) src @ drop (n div sizeof_vertex) vs))\<rparr>)
          else (Inl (Undefined ''memcpy out of bounds''), w)
      | _ \<Rightarrow> (Inl (Undefined ''memcpy: invalid destination''), w))"

definition printf :: "print \<Rightarrow> world \<Rightarrow> world" where
  "printf l w = w\<lparr>console := console w @ [l]\<rparr>"

definition gpu :: "gpu_call \<Rightarrow> world \<Rightarrow> world" where
  "gpu c w = w\<lparr>gpu_log := gpu_log w @ [c]\<rparr>"

definition panic :: "nat \<Rightarrow> string \<Rightarrow> world \<Rightarrow> 'a result" where
  "panic line msg w = (Inl (Panic line msg), w)"

text \<open>
  Storage for an array as \<open>malloc n\<close> returns it: as many whole elements as fit in
  \<open>n\<close> bytes, with indeterminate contents.
\<close>

definition fresh_meshes :: "env \<Rightarrow> nat \<Rightarrow> block" where
  "fresh_meshes E n = MeshBlock n (replicate (n div sizeof_mesh E) (junk_mesh E))"

definition fresh_requests :: "env \<Rightarrow> nat \<Rightarrow> block" where
  "fresh_requests E n =
     RequestBlock n (replicate (n div sizeof_render_request E) (junk_request E))"

text \<open>
  \<open>BufInfo_Init\<close> and \<open>BufInfo_Add\<close> on the context's descriptor: the first empties
  it, the second appends a buffer unless all twelve entries are taken.
\<close>

definition BufInfo_Init :: "world \<Rightarrow> world" where
  "BufInfo_Init w = w\<lparr>ctx_buf_info := []\<rparr>"

definition BufInfo_Add :: "addr \<Rightarrow> nat \<Rightarrow> nat \<Rightarrow> nat \<Rightarrow> world \<Rightarrow> world" where
  "BufInfo_Add data stride attribCount permutation w =
     (if length (ctx_buf_info w) = 12 then w
      else w\<lparr>ctx_buf_info := ctx_buf_info w @
             [\<lparr>buf_data = data, buf_stride = stride, buf_attrib_count = attribCount,
               buf_permutation = permutation\<rparr>]\<rparr>)"

section \<open>renderer.c\<close>

text \<open>
  \<open>renderer_init\<close>: the struct comes from \<open>malloc\<close>, not \<open>calloc\<close>, so the fields the
  function does not assign (the two arrays, their lengths and capacities) keep whatever
  the storage held.
\<close>

definition renderer_init :: "env \<Rightarrow> world \<Rightarrow> addr result" where
  "renderer_init E w =
     and_then (malloc (sizeof_renderer E) (RendererBlock (junk_renderer E)) w) (\<lambda>ret w.
        if ret = 0 then panic 16 ''ret was null!'' w
        else
          and_then (update_this ret (\<lambda>r. r\<lparr>projection := Mtx_PerspTilt_80 E\<rparr>) w) (\<lambda>_ w.
          and_then (update_this ret (\<lambda>r. r\<lparr>shader_dvlb := DVLB_ParseFile E\<rparr>) w) (\<lambda>_ w.
          and_then (update_this ret (\<lambda>r. r\<lparr>shader_program := shaderProgramInit E\<rparr>) w) (\<lambda>_ w.
          and_then (read_this ret w) (\<lambda>r w.
          let w = gpu (C3D_BindProgram (shader_program r)) w in
          and_then (update_this ret (\<lambda>r. r\<lparr>
              uLoc_projection := shaderInstanceGetUniformLocation E ''projection'',
              uLoc_modelView := shaderInstanceGetUniformLocation E ''modelView'',
              uLoc_lightVec := shaderInstanceGetUniformLocation E ''lightVec'',
              uLoc_lightHalfVec := shaderInstanceGetUniformLocation E ''lightHalfVec'',
              uLoc_lightClr := shaderInstanceGetUniformLocation E ''lightClr'',
              uLoc_material := shaderInstanceGetUniformLocation E ''material''\<rparr>) w) (\<lambda>_ w.
          and_then (update_this ret (\<lambda>r. r\<lparr>attr_info := C3D_GetAttrInfo E\<rparr>) w) (\<lambda>_ w.
          let w = gpu AttrInfo_Init w;
              w = gpu (AttrInfo_AddLoader 0 GPU_FLOAT 3) w;
              w = gpu (AttrInfo_AddLoader 1 GPU_FLOAT 2) w;
              w = gpu (AttrInfo_AddLoader 2 GPU_FLOAT 3) w;
              w = gpu (C3D_TexEnvInit 0) w;
              w = gpu (C3D_TexEnvSrc 0) w;
              w = gpu (C3D_TexEnvFunc 0) w
          in (Inr ret, w))))))))"

text \<open>
  \<open>new_mesh\<close>. The first call allocates room for ten meshes. When the array is full the
  source calls \<open>realloc(this->meshes, newcap)\<close>: the second argument is the new element
  count, passed where \<open>realloc\<close> takes a size in bytes.
\<close>

definition new_mesh :: "env \<Rightarrow> addr \<Rightarrow> world \<Rightarrow> size_t result" where
  "new_mesh E this w =
     (if this = 0 then panic 58 ''this was null!'' w
      else
        and_then (read_this this w) (\<lambda>r w.
        and_then
          (if meshes r = 0 then
             and_then (malloc (10 * sizeof_mesh E) (fresh_meshes E (10 * sizeof_mesh E)) w)
               (\<lambda>p w.
             and_then (update_this this (\<lambda>r. r\<lparr>meshes := p\<rparr>) w) (\<lambda>_ w.
             if p = 0 then panic 62 ''failed malloc'' w
             else update_this this (\<lambda>r. r\<lparr>capacity_meshes := 10\<rparr>) w))
           else if n_meshes r = capacity_meshes r then
             (let newcap = (capacity_meshes r * 3) div 2 in
              and_then (realloc E (meshes r) (unat newcap) w) (\<lambda>p w.
              and_then (update_this this (\<lambda>r. r\<lparr>meshes := p\<rparr>) w) (\<lambda>_ w.
              if p = 0 then panic 68 ''failed realloc'' w
              else update_this this (\<lambda>r. r\<lparr>capacity_meshes := newcap\<rparr>) w)))
           else (Inr (), w))
          (\<lambda>_ w.
        and_then (update_this this (\<lambda>r. r\<lparr>n_meshes := n_meshes r + 1\<rparr>) w) (\<lambda>_ w.
        and_then (read_this this w) (\<lambda>r w.
        (Inr (n_meshes r - 1), w))))))"

text \<open>
  \<open>renderer_register_mesh\<close>, lines 101 to 110, for \<open>mesh = &this->meshes[i]\<close>: the
  material, the vertex buffer in linear memory and its contents, the vertex count. The
  copy into the buffer comes before the null check of the buffer.
\<close>

definition register_geometry ::
  "addr \<Rightarrow> nat \<Rightarrow> vertex list \<Rightarrow> size_t \<Rightarrow> material \<Rightarrow> world \<Rightarrow> unit result" where
  "register_geometry mesh i vs n_vertices mat w =
     and_then (write_mesh mesh i (\<lambda>m. m\<lparr>material := mat\<rparr>) w) (\<lambda>_ w.
     let size = (word_of_nat sizeof_vertex :: size_t) * n_vertices in
     and_then (linearAlloc (unat size) w) (\<lambda>vbo w.
        and_then (write_mesh mesh i (\<lambda>m. m\<lparr>vbo_data := vbo\<rparr>) w) (\<lambda>_ w.
        and_then (memcpy_vertices vbo vs (unat size) w) (\<lambda>_ w.
        and_then (write_mesh mesh i (\<lambda>m. m\<lparr>vertex_count := n_vertices\<rparr>) w) (\<lambda>_ w.
        and_then (read_mesh mesh i w) (\<lambda>m w.
        if vbo_data m = 0 then panic 107 ''mesh->vbo_data was null!'' w
        else
          (let w = printf (PrintMesh n_vertices sizeof_vertex size) w;
               w = printf (PrintTexture (tex_data (texture m))) w
           in (Inr (), w))))))))"

text \<open>
  Lines 112 to 126: the texture import, which panics on a malformed container, the
  filter, and the context's buffer descriptor, reset to hold the new vertex buffer.
\<close>

definition register_texture ::
  "env \<Rightarrow> addr \<Rightarrow> nat \<Rightarrow> 8 word list \<Rightarrow> size_t \<Rightarrow> world \<Rightarrow> unit result" where
  "register_texture E mesh i td texture_size w =
     (if length td < unat texture_size
      then (Inl (Undefined ''texture data read out of bounds''), w)
      else
        (case Tex3DS_TextureImport E (take (unat texture_size) td) of
           None \<Rightarrow> panic 114 ''importing t3x texture failed!'' w
         | Some t3x \<Rightarrow>
             and_then (write_mesh mesh i (\<lambda>m. m\<lparr>texture := t3x\<rparr>) w) (\<lambda>_ w.
             and_then (write_mesh mesh i (\<lambda>m. m\<lparr>texture :=
                 (texture m)\<lparr>mag_filter := GPU_LINEAR, min_filter := GPU_NEAREST\<rparr>\<rparr>) w) (\<lambda>_ w.
             and_then (read_mesh mesh i w) (\<lambda>m w.
             let w = printf (PrintTexture (tex_data (texture m))) w in
             and_then (write_mesh mesh i (\<lambda>m. m\<lparr>buf_info := C3D_GetBufInfo E\<rparr>) w) (\<lambda>_ w.
             and_then (read_mesh mesh i w) (\<lambda>m w.
             let w = BufInfo_Init w;
                 w = BufInfo_Add (vbo_data m) sizeof_vertex 3 0x210 w
             in (Inr (), w))))))))"

text \<open>
  \<open>renderer_register_mesh\<close>. A null array argument is \<open>None\<close>; the list behind a non-null
  pointer is the array the caller really owns, which \<open>n_vertices\<close> and \<open>texture_size\<close>
  may misreport. The five checks come first; then the slot is taken and filled.
\<close>

definition renderer_register_mesh ::
  "env \<Rightarrow> addr \<Rightarrow> vertex list option \<Rightarrow> size_t \<Rightarrow> 8 word list option \<Rightarrow> size_t \<Rightarrow>
   material \<Rightarrow> world \<Rightarrow> size_t result" where
  "renderer_register_mesh E this vertices n_vertices texture_data texture_size mat w =
     (if this = 0 then panic 91 ''this was null!'' w
      else if vertices = None then panic 92 ''vertices was null!'' w
      else if texture_data = None then panic 93 ''texture_data was null!'' w
      else if n_vertices = 0 then panic 94 ''n_vertices was zero!'' w
      else if texture_size = 0 then panic 95 ''texture_size was zero!'' w
      else
        and_then (new_mesh E this w) (\<lambda>ret w.
        and_then (read_this this w) (\<lambda>r w.
        let mesh = meshes r; i = unat ret in
        and_then (register_geometry mesh i (the vertices) n_vertices mat w) (\<lambda>_ w.
        and_then (register_texture E mesh i (the texture_data) texture_size w) (\<lambda>_ w.
        (Inr ret, w))))))"

text \<open>
  \<open>renderer_request\<close>. There is no null check on \<open>this\<close> and none on \<open>model\<close>
  (\<open>None\<close> is a null pointer). The first call allocates \<open>10 * sizeof(struct mesh)\<close> bytes
  for the queue. When the queue is full the source calls
  \<open>realloc(this->requests, newcap)\<close>, again with an element count for a byte size, and
  assigns the result to \<open>this->meshes\<close>; \<open>this->requests\<close> keeps the old pointer. The index
  is taken and \<open>n_requests\<close> incremented before the slot is written.
\<close>

definition renderer_request ::
  "env \<Rightarrow> addr \<Rightarrow> size_t \<Rightarrow> C3D_Mtx option \<Rightarrow> world \<Rightarrow> unit result" where
  "renderer_request E this mesh_id' model' w =
     and_then (read_this this w) (\<lambda>r w.
     and_then
       (if requests r = 0 then
          and_then (malloc (10 * sizeof_mesh E) (fresh_requests E (10 * sizeof_mesh E)) w)
            (\<lambda>p w.
          and_then (update_this this (\<lambda>r. r\<lparr>requests := p\<rparr>) w) (\<lambda>_ w.
          if p = 0 then panic 139 ''failed malloc'' w
          else update_this this (\<lambda>r. r\<lparr>capacity_requests := 10\<rparr>) w))
        else if n_requests r = capacity_requests r then
          (let newcap = (capacity_requests r * 3) div 2 in
           and_then (realloc E (requests r) (unat newcap) w) (\<lambda>p w.
           and_then (update_this this (\<lambda>r. r\<lparr>meshes := p\<rparr>) w) (\<lambda>_ w.
           and_then (read_this this w) (\<lambda>r w.
           if requests r = 0 then panic 145 ''failed realloc'' w
           else update_this this (\<lambda>r. r\<lparr>capacity_requests := newcap\<rparr>) w))))
        else (Inr (), w))
       (\<lambda>_ w.
     and_then (read_this this w) (\<lambda>r w.
     let request = requests r; i = unat (n_requests r) in
     and_then (update_this this (\<lambda>r. r\<lparr>n_requests := n_requests r + 1\<rparr>) w) (\<lambda>_ w.
     and_then (write_request request i (\<lambda>q. q\<lparr>mesh_id := mesh_id'\<rparr>) w) (\<lambda>_ w.
     case model' of
       None \<Rightarrow> (Inl (Undefined ''model is null''), w)
     | Some m \<Rightarrow> write_request request i (\<lambda>q. q\<lparr>model := m\<rparr>) w)))))"

text \<open>
  One iteration of the loop of \<open>renderer_render\<close> for the request at \<open>idx\<close>: the debug
  print of the material, the six uniforms, the texture bind and the draw.
  \<open>C3D_SetBufInfo(mesh->buf_info)\<close> is commented out in the source.
\<close>

definition render_request_at :: "addr \<Rightarrow> size_t \<Rightarrow> world \<Rightarrow> unit result" where
  "render_request_at this idx w =
     and_then (read_this this w) (\<lambda>r w.
     and_then (read_request (requests r) (unat idx) w) (\<lambda>q w.
     and_then (read_mesh (meshes r) (unat (mesh_id q)) w) (\<lambda>mesh w.
     (case mtx_of_material (material mesh) of (r0, r1, r2, r3) \<Rightarrow>
      let w = printf (case r0 of (a, b, c, d) \<Rightarrow> PrintRow ''mvp'' a b c d) w;
          w = printf (case r1 of (a, b, c, d) \<Rightarrow> PrintRow ''   '' a b c d) w;
          w = printf (case r2 of (a, b, c, d) \<Rightarrow> PrintRow ''   '' a b c d) w;
          w = printf (case r3 of (a, b, c, d) \<Rightarrow> PrintRow ''   '' a b c d) w;
          w = gpu (C3D_FVUnifMtx4x4 GPU_VERTEX_SHADER (uLoc_projection r) (projection r)) w;
          w = gpu (C3D_FVUnifMtx4x4 GPU_VERTEX_SHADER (uLoc_modelView r) (model q)) w;
          w = gpu (C3D_FVUnifMtx4x4 GPU_VERTEX_SHADER (uLoc_material r)
                     (mtx_of_material (material mesh))) w;
          w = gpu (C3D_FVUnifSet GPU_VERTEX_SHADER (uLoc_lightVec r) 0 0 (- 1) 0) w;
          w = gpu (C3D_FVUnifSet GPU_VERTEX_SHADER (uLoc_lightHalfVec r) 0 0 (- 1) 0) w;
          w = gpu (C3D_FVUnifSet GPU_VERTEX_SHADER (uLoc_lightClr r) 1 1 1 1) w;
          w = gpu (C3D_TexBind 0 (texture mesh)) w;
          w = gpu (C3D_DrawArrays GPU_TRIANGLES 0 (vertex_count mesh) (ctx_buf_info w)) w
      in (Inr (), w)))))"

text \<open>The number of iterations the loop still has to run from \<open>idx\<close>.\<close>

definition requests_left :: "addr \<Rightarrow> size_t \<Rightarrow> world \<Rightarrow> nat" where
  "requests_left this idx w =
     (case get_renderer w this of None \<Rightarrow> 0 | Some r \<Rightarrow> unat (n_requests r) - unat idx)"

text \<open>
  The loop \<open>for (idx = 0; idx < this->n_requests; idx++)\<close>. It terminates because an
  iteration changes neither the store nor \<open>n_requests\<close> and \<open>idx\<close> cannot wrap below
  \<open>n_requests\<close>; the three lemmas before it are what the termination proof needs.
\<close>

lemma and_then_Inr:
  "and_then m f = (Inr x, w') \<longleftrightarrow> (\<exists>y w1. m = (Inr y, w1) \<and> f y w1 = (Inr x, w'))"
  by (cases m) (auto simp: and_then_def split: sum.splits)

lemma read_this_Inr:
  "read_this this w = (Inr r, w') \<longleftrightarrow> get_renderer w this = Some r \<and> w' = w"
  by (auto simp: read_this_def split: option.splits)

lemma read_request_Inr_world: "read_request p i w = (Inr q, w') \<Longrightarrow> w' = w"
  by (auto simp: read_request_def split: option.splits block.splits if_splits)

lemma read_mesh_Inr_world: "read_mesh p i w = (Inr m, w') \<Longrightarrow> w' = w"
  by (auto simp: read_mesh_def split: option.splits block.splits if_splits)

lemma render_request_at_frame:
  assumes "render_request_at this idx w = (Inr u, w')"
  shows "store w' = store w \<and> brk w' = brk w \<and> heap_free w' = heap_free w \<and>
     linear_free w' = linear_free w \<and> ctx_buf_info w' = ctx_buf_info w"
  using assms
  by (auto simp: render_request_at_def and_then_Inr read_this_Inr split_def Let_def
      printf_def gpu_def dest!: read_request_Inr_world read_mesh_Inr_world)

lemma get_renderer_cong:
  "store w' = store w \<Longrightarrow> brk w' = brk w \<Longrightarrow> get_renderer w' p = get_renderer w p"
  by (simp add: get_renderer_def deref_def)

lemma unat_succ_less: "(idx::size_t) < n \<Longrightarrow> unat (idx + 1) = Suc (unat idx)"
proof -
  assume "idx < n"
  then have "unat idx < unat n"
    by (simp add: word_less_nat_alt)
  moreover have "unat n < 2 ^ 32"
    using unsigned_less [of n] by simp
  ultimately have "unat idx + unat (1::size_t) < 2 ^ LENGTH(32)"
    by simp
  then show ?thesis
    using unat_add_lem [of idx 1] by simp
qed

lemma render_loop_decreases:
  assumes r: "get_renderer w this = Some r" and lt: "idx < n_requests r"
    and step: "render_request_at this idx w = (Inr u, y)"
  shows "requests_left this (idx + 1) y < requests_left this idx w"
proof -
  have "store y = store w \<and> brk y = brk w"
    using render_request_at_frame [OF step] by blast
  then have "get_renderer y this = Some r"
    using r get_renderer_cong [of y w this] by simp
  moreover have "unat idx < unat (n_requests r)"
    using lt by (simp add: word_less_nat_alt)
  ultimately show ?thesis
    using r unat_succ_less [OF lt] by (simp add: requests_left_def)
qed

function render_loop :: "addr \<Rightarrow> size_t \<Rightarrow> world \<Rightarrow> unit result" where
  "render_loop this idx w =
     (case get_renderer w this of
        None \<Rightarrow> (Inl (Undefined ''this''), w)
      | Some r \<Rightarrow>
          if idx < n_requests r
          then (case render_request_at this idx w of
                  (Inl e, w') \<Rightarrow> (Inl e, w')
                | (Inr u, w') \<Rightarrow> render_loop this (idx + 1) w')
          else (Inr (), w))"
  by pat_completeness auto
termination
  apply (relation "measure (\<lambda>(this, idx, w). requests_left this idx w)")
   apply simp
  apply (simp only: in_measure prod.case)
  apply (metis render_loop_decreases)
  done

declare render_loop.simps [simp del]

text \<open>\<open>renderer_render\<close>: the null check, the loop, and the reset of the queue length.\<close>

definition renderer_render :: "addr \<Rightarrow> world \<Rightarrow> unit result" where
  "renderer_render this w =
     (if this = 0 then panic 158 ''this was null!'' w
      else
        and_then (render_loop this 0 w) (\<lambda>_ w.
        update_this this (\<lambda>r. r\<lparr>n_requests := 0\<rparr>) w))"

text \<open>
  A caller's frame: one \<open>renderer_request\<close> per pair of handle and matrix, in the order
  of the list.
\<close>

fun enqueue_all :: "env \<Rightarrow> addr \<Rightarrow> (size_t \<times> C3D_Mtx) list \<Rightarrow> world \<Rightarrow> unit result" where
  "enqueue_all E this [] w = (Inr (), w)"
| "enqueue_all E this ((h, m) # qs) w =
     and_then (renderer_request E this h (Some m) w) (\<lambda>_ w. enqueue_all E this qs w)"

text \<open>
  The arrays as the renderer sees them: the elements behind \<open>this->requests\<close> and
  \<open>this->meshes\<close>, empty when the pointer designates no such array.
\<close>

definition request_array :: "world \<Rightarrow> renderer \<Rightarrow> render_request list" where
  "request_array w r =
     (case deref w (requests r) of Some (RequestBlock n rs) \<Rightarrow> rs | _ \<Rightarrow> [])"

definition mesh_array :: "world \<Rightarrow> renderer \<Rightarrow> mesh list" where
  "mesh_array w r =
     (case deref w (meshes r) of Some (MeshBlock n ms) \<Rightarrow> ms | _ \<Rightarrow> [])"

text \<open>The backend calls of one loop iteration, for request \<open>q\<close> and the mesh it names.\<close>

definition draw_calls :: "renderer \<Rightarrow> render_request \<Rightarrow> mesh \<Rightarrow> buf_cfg list \<Rightarrow> gpu_call list" where
  "draw_calls r q m bufs =
     [C3D_FVUnifMtx4x4 GPU_VERTEX_SHADER (uLoc_projection r) (projection r),
      C3D_FVUnifMtx4x4 GPU_VERTEX_SHADER (uLoc_modelView r) (model q),
      C3D_FVUnifMtx4x4 GPU_VERTEX_SHADER (uLoc_material r) (mtx_of_material (material m)),
      C3D_FVUnifSet GPU_VERTEX_SHADER (uLoc_lightVec r) 0 0 (- 1) 0,
      C3D_FVUnifSet GPU_VERTEX_SHADER (uLoc_lightHalfVec r) 0 0 (- 1) 0,
      C3D_FVUnifSet GPU_VERTEX_SHADER (uLoc_lightClr r) 1 1 1 1,
      C3D_TexBind 0 (texture m),
      C3D_DrawArrays GPU_TRIANGLES 0 (vertex_count m) bufs]"

text \<open>The four lines the loop prints for a mesh: its material, read as a matrix.\<close>

definition debug_rows :: "mesh \<Rightarrow> print list" where
  "debug_rows m = (case mtx_of_material (material m) of (r0, r1, r2, r3) \<Rightarrow>
     [case r0 of (a, b, c, d) \<Rightarrow> PrintRow ''mvp'' a b c d,
      case r1 of (a, b, c, d) \<Rightarrow> PrintRow ''   '' a b c d,
      case r2 of (a, b, c, d) \<Rightarrow> PrintRow ''   '' a b c d,
      case r3 of (a, b, c, d) \<Rightarrow> PrintRow ''   '' a b c d])"

text \<open>Appending lines to the console and calls to the backend log.\<close>

definition emit :: "print list \<Rightarrow> gpu_call list \<Rightarrow> world \<Rightarrow> world" where
  "emit ps cs w = w\<lparr>console := console w @ ps, gpu_log := gpu_log w @ cs\<rparr>"

text \<open>
  Request \<open>i\<close> of the queue can be processed: it lies in the request array and the
  handle it names lies in the mesh array.
\<close>

definition in_bounds :: "world \<Rightarrow> renderer \<Rightarrow> nat \<Rightarrow> bool" where
  "in_bounds w r i \<longleftrightarrow> i < length (request_array w r) \<and>
     unat (mesh_id (request_array w r ! i)) < length (mesh_array w r)"

text \<open>The mesh that request \<open>i\<close> names, and the backend calls of its iteration.\<close>

definition requested_mesh :: "world \<Rightarrow> renderer \<Rightarrow> nat \<Rightarrow> mesh" where
  "requested_mesh w r i = mesh_array w r ! unat (mesh_id (request_array w r ! i))"

definition request_calls :: "world \<Rightarrow> renderer \<Rightarrow> nat \<Rightarrow> gpu_call list" where
  "request_calls w r i =
     draw_calls r (request_array w r ! i) (requested_mesh w r i) (ctx_buf_info w)"

fun is_draw :: "gpu_call \<Rightarrow> bool" where
  "is_draw (C3D_DrawArrays p f n bufs) = True"
| "is_draw _ = False"

fun is_buffer_bind :: "gpu_call \<Rightarrow> bool" where
  "is_buffer_bind (C3D_SetBufInfo bufs) = True"
| "is_buffer_bind _ = False"

text \<open>
  The requests the loop of \<open>renderer_render\<close> gets through: those in front of the first
  one that is out of bounds.
\<close>

definition processed :: "world \<Rightarrow> renderer \<Rightarrow> nat list" where
  "processed w r = takeWhile (in_bounds w r) [0..<unat (n_requests r)]"

text \<open>
  A registration that can go through: nonempty arguments, room for the vertex buffer in
  linear memory, source arrays at least as long as the sizes passed, a texture the
  importer accepts, and a free slot in the mesh array (which the first registration
  allocates).
\<close>

definition can_register ::
  "env \<Rightarrow> world \<Rightarrow> renderer \<Rightarrow> vertex list \<Rightarrow> size_t \<Rightarrow> 8 word list \<Rightarrow> size_t \<Rightarrow> bool" where
  "can_register E w r vs nv td ts \<longleftrightarrow>
     nv \<noteq> 0 \<and> ts \<noteq> 0 \<and>
     unat (word_of_nat sizeof_vertex * nv :: size_t) \<le> linear_free w \<and>
     unat (word_of_nat sizeof_vertex * nv :: size_t) \<le> sizeof_vertex * length vs \<and>
     unat ts \<le> length td \<and>
     Tex3DS_TextureImport E (take (unat ts) td) \<noteq> None \<and>
     (if meshes r = 0
      then 10 * sizeof_mesh E \<le> heap_free w \<and>
           unat (n_meshes r) < 10 * sizeof_mesh E div sizeof_mesh E
      else n_meshes r \<noteq> capacity_meshes r \<and> unat (n_meshes r) < length (mesh_array w r))"

section \<open>A concrete machine\<close>

text \<open>
  An environment and states to run the functions on: struct sizes of a 32-bit build,
  zero-filled fresh storage, and an importer that rejects an empty container and one
  whose first byte is zero.
\<close>

definition zero_vec :: C3D_FVec where
  "zero_vec = (0, 0, 0, 0)"

definition zero_mtx :: C3D_Mtx where
  "zero_mtx = (zero_vec, zero_vec, zero_vec, zero_vec)"

definition identity_mtx :: C3D_Mtx where
  "identity_mtx = ((1, 0, 0, 0), (0, 1, 0, 0), (0, 0, 1, 0), (0, 0, 0, 1))"

definition shift_mtx :: C3D_Mtx where
  "shift_mtx = ((1, 0, 0, 2), (0, 1, 0, 0), (0, 0, 1, 0), (0, 0, 0, 1))"

definition zero_material :: material where
  "zero_material =
     \<lparr>ambient = zero_vec, diffuse = zero_vec, specular = zero_vec, emission = zero_vec\<rparr>"

definition red_material :: material where
  "red_material =
     \<lparr>ambient = (1, 0, 0, 0), diffuse = (1, 0, 0, 0), specular = zero_vec, emission = zero_vec\<rparr>"

definition zero_tex :: C3D_Tex where
  "zero_tex = \<lparr>tex_data = 0, tex_image = 0, mag_filter = GPU_NEAREST, min_filter = GPU_NEAREST\<rparr>"

definition zero_mesh :: mesh where
  "zero_mesh =
     \<lparr>material = zero_material, vbo_data = 0, buf_info = 0, texture = zero_tex, vertex_count = 0\<rparr>"

definition zero_request :: render_request where
  "zero_request = \<lparr>mesh_id = 0, model = zero_mtx\<rparr>"

definition zero_renderer :: renderer where
  "zero_renderer =
     \<lparr>attr_info = 0, projection = zero_mtx, shader_dvlb = 0, shader_program = 0,
      uLoc_projection = 0, uLoc_modelView = 0, uLoc_lightVec = 0, uLoc_lightHalfVec = 0,
      uLoc_lightClr = 0, uLoc_material = 0, requests = 0, n_requests = 0,
      capacity_requests = 0, meshes = 0, n_meshes = 0, capacity_meshes = 0\<rparr>"

definition test_import :: "8 word list \<Rightarrow> C3D_Tex option" where
  "test_import bs = (case bs of
       [] \<Rightarrow> None
     | b # _ \<Rightarrow>
         if b = 0 then None
         else Some \<lparr>tex_data = 4096, tex_image = unat b, mag_filter = GPU_NEAREST,
                     min_filter = GPU_NEAREST\<rparr>)"

definition test_uniform :: "string \<Rightarrow> int" where
  "test_uniform name =
     (if name = ''projection'' then 0 else if name = ''modelView'' then 4
      else if name = ''lightVec'' then 8 else if name = ''lightHalfVec'' then 9
      else if name = ''lightClr'' then 10 else if name = ''material'' then 11 else - 1)"

definition test_env :: env where
  "test_env =
     \<lparr>sizeof_renderer = 200, sizeof_mesh = 100, sizeof_render_request = 68,
      junk_renderer = zero_renderer, junk_mesh = zero_mesh, junk_request = zero_request,
      Mtx_PerspTilt_80 = identity_mtx, DVLB_ParseFile = 7, shaderProgramInit = 1,
      shaderInstanceGetUniformLocation = test_uniform, C3D_GetAttrInfo = 8, C3D_GetBufInfo = 9,
      Tex3DS_TextureImport = test_import\<rparr>"

definition triangle :: "vertex list" where
  "triangle =
     [\<lparr>position = (0, 0, 0), texcoord = (0, 0), normal = (0, 0, 1)\<rparr>,
      \<lparr>position = (1, 0, 0), texcoord = (1, 0), normal = (0, 0, 1)\<rparr>,
      \<lparr>position = (0, 1, 0), texcoord = (0, 1), normal = (0, 0, 1)\<rparr>]"

text \<open>The machine before \<open>renderer_init\<close>.\<close>

definition boot :: world where
  "boot = \<lparr>store = Map.empty, brk = 0, heap_free = 100000, linear_free = 100000, gpu_log = [],
     ctx_buf_info = [], console = []\<rparr>"

text \<open>
  The renderer and the meshes of the state \<open>renderer_init\<close>, two registrations (a
  triangle with the zero material, then two triangles with the red material) reach.
\<close>

definition ready_renderer :: renderer where
  "ready_renderer =
     \<lparr>attr_info = 8, projection = identity_mtx, shader_dvlb = 7, shader_program = 1,
      uLoc_projection = 0, uLoc_modelView = 4, uLoc_lightVec = 8, uLoc_lightHalfVec = 9,
      uLoc_lightClr = 10, uLoc_material = 11, requests = 0, n_requests = 0,
      capacity_requests = 0, meshes = 2, n_meshes = 2, capacity_meshes = 10\<rparr>"

definition mesh_a :: mesh where
  "mesh_a =
     \<lparr>material = zero_material, vbo_data = 3, buf_info = 9,
      texture = \<lparr>tex_data = 4096, tex_image = 1, mag_filter = GPU_LINEAR,
                  min_filter = GPU_NEAREST\<rparr>,
      vertex_count = 3\<rparr>"

definition mesh_b :: mesh where
  "mesh_b =
     \<lparr>material = red_material, vbo_data = 4, buf_info = 9,
      texture = \<lparr>tex_data = 4096, tex_image = 7, mag_filter = GPU_LINEAR,
                  min_filter = GPU_NEAREST\<rparr>,
      vertex_count = 6\<rparr>"

definition ready_world :: world where
  "ready_world =
     \<lparr>store = [1 \<mapsto> RendererBlock ready_renderer,
               2 \<mapsto> MeshBlock 1000 [mesh_a, mesh_b, zero_mesh, zero_mesh, zero_mesh, zero_mesh,
                                  zero_mesh, zero_mesh, zero_mesh, zero_mesh],
               3 \<mapsto> VertexBlock 96 triangle,
               4 \<mapsto> VertexBlock 192 (triangle @ triangle)],
      brk = 4, heap_free = 98800, linear_free = 99712,
      gpu_log = [C3D_BindProgram 1, AttrInfo_Init, AttrInfo_AddLoader 0 GPU_FLOAT 3,
                 AttrInfo_AddLoader 1 GPU_FLOAT 2, AttrInfo_AddLoader 2 GPU_FLOAT 3,
                 C3D_TexEnvInit 0, C3D_TexEnvSrc 0, C3D_TexEnvFunc 0],
      ctx_buf_info = [\<lparr>buf_data = 4, buf_stride = 32, buf_attrib_count = 3,
                       buf_permutation = 0x210\<rparr>],
      console = [PrintMesh 3 32 96, PrintTexture 0, PrintTexture 4096,
                 PrintMesh 6 32 192, PrintTexture 0, PrintTexture 4096]\<rparr>"

text \<open>
  The same state with two requests queued, first mesh 1 with the identity matrix, then
  mesh 0 with a shifted one.
\<close>

definition queued_renderer :: renderer where
  "queued_renderer = ready_renderer\<lparr>requests := 5, n_requests := 2, capacity_requests := 10\<rparr>"

definition queued_world :: world where
  "queued_world =
     ready_world\<lparr>store := (store ready_world)
        (1 \<mapsto> RendererBlock queued_renderer,
         5 \<mapsto> RequestBlock 1000
           [\<lparr>mesh_id = 1, model = identity_mtx\<rparr>, \<lparr>mesh_id = 0, model = shift_mtx\<rparr>,
            zero_request, zero_request, zero_request, zero_request, zero_request, zero_request,
            zero_request, zero_request, zero_request, zero_request, zero_request, zero_request]),
      brk := 5, heap_free := 97800\<rparr>"

text \<open>
  The state \<open>renderer_init\<close> reaches from \<open>boot\<close>, and the states reached from it by
  registering the same triangle \<open>k\<close> times (\<open>1 \<le> k \<le> 10\<close>): mesh \<open>j\<close> has its vertex
  buffer at address \<open>3 + j\<close>.
\<close>

definition mesh_at :: "addr \<Rightarrow> mesh" where
  "mesh_at p = mesh_a\<lparr>vbo_data := p\<rparr>"

definition busy_request :: render_request where
  "busy_request = \<lparr>mesh_id = 1, model = identity_mtx\<rparr>"

definition init_renderer :: renderer where
  "init_renderer = ready_renderer\<lparr>meshes := 0, n_meshes := 0, capacity_meshes := 0\<rparr>"

definition init_world :: world where
  "init_world =
     \<lparr>store = [1 \<mapsto> RendererBlock init_renderer],
      brk = 1, heap_free = 99800, linear_free = 100000,
      gpu_log = [C3D_BindProgram 1, AttrInfo_Init, AttrInfo_AddLoader 0 GPU_FLOAT 3,
                 AttrInfo_AddLoader 1 GPU_FLOAT 2, AttrInfo_AddLoader 2 GPU_FLOAT 3,
                 C3D_TexEnvInit 0, C3D_TexEnvSrc 0, C3D_TexEnvFunc 0],
      ctx_buf_info = [], console = []\<rparr>"

definition stocked :: "nat \<Rightarrow> world" where
  "stocked k =
     \<lparr>store = (\<lambda>p. if p = 1 then Some (RendererBlock (ready_renderer\<lparr>n_meshes := of_nat k\<rparr>))
                    else if p = 2 then Some (MeshBlock 1000
                      (map mesh_at [3..<3 + k] @ replicate (10 - k) zero_mesh))
                    else if 3 \<le> p \<and> p < 3 + k then Some (VertexBlock 96 triangle)
                    else None),
      brk = 2 + k, heap_free = 98800, linear_free = 100000 - 96 * k,
      gpu_log = gpu_log init_world,
      ctx_buf_info = [\<lparr>buf_data = 2 + k, buf_stride = 32, buf_attrib_count = 3,
                       buf_permutation = 0x210\<rparr>],
      console = concat (replicate k [PrintMesh 3 32 96, PrintTexture 0, PrintTexture 4096])\<rparr>"

text \<open>
  The states reached from \<open>ready_world\<close> by requesting mesh 1 with the identity matrix
  \<open>k\<close> times (\<open>1 \<le> k \<le> 10\<close>), and the state after the first of the two requests of
  \<open>queued_world\<close>.
\<close>

definition lined :: "nat \<Rightarrow> world" where
  "lined k =
     ready_world\<lparr>store := (store ready_world)
        (1 \<mapsto> RendererBlock (ready_renderer\<lparr>requests := 5, n_requests := of_nat k,
                                               capacity_requests := 10\<rparr>),
         5 \<mapsto> RequestBlock 1000 (replicate k busy_request @ replicate (14 - k) zero_request)),
      brk := 5, heap_free := 97800\<rparr>"

definition one_request_world :: world where
  "one_request_world =
     ready_world\<lparr>store := (store ready_world)
        (1 \<mapsto> RendererBlock (queued_renderer\<lparr>n_requests := 1\<rparr>),
         5 \<mapsto> RequestBlock 1000
           [\<lparr>mesh_id = 1, model = identity_mtx\<rparr>, zero_request,
            zero_request, zero_request, zero_request, zero_request, zero_request, zero_request,
            zero_request, zero_request, zero_request, zero_request, zero_request, zero_request]),
      brk := 5, heap_free := 97800\<rparr>"

text \<open>Registering the triangle \<open>k\<close> times, collecting the handles; requesting \<open>k\<close> times.\<close>

fun register_triangles :: "nat \<Rightarrow> addr \<Rightarrow> world \<Rightarrow> size_t list result" where
  "register_triangles 0 this w = (Inr [], w)"
| "register_triangles (Suc k) this w =
     and_then (register_triangles k this w) (\<lambda>hs w.
     and_then (renderer_register_mesh test_env this (Some triangle) 3 (Some [1, 2]) 2
                 zero_material w) (\<lambda>h w.
     (Inr (hs @ [h]), w)))"

fun request_times :: "nat \<Rightarrow> addr \<Rightarrow> world \<Rightarrow> unit result" where
  "request_times 0 this w = (Inr (), w)"
| "request_times (Suc k) this w =
     and_then (request_times k this w) (\<lambda>_ w.
     renderer_request test_env this 1 (Some identity_mtx) w)"

text \<open>
  The states at the fault of the eleventh registration and of the eleventh request.
\<close>

definition grown_renderer :: renderer where
  "grown_renderer = ready_renderer\<lparr>meshes := 13, capacity_meshes := 15, n_meshes := 11\<rparr>"

definition grown_registry :: world where
  "grown_registry =
     (stocked 10)\<lparr>store := (store (stocked 10))
        (2 := None, 13 \<mapsto> MeshBlock 15 [], 1 \<mapsto> RendererBlock grown_renderer),
      brk := 13, heap_free := 99785\<rparr>"

definition broken_renderer :: renderer where
  "broken_renderer =
     ready_renderer\<lparr>requests := 5, n_requests := 11, capacity_requests := 15, meshes := 6\<rparr>"

definition broken_queue :: world where
  "broken_queue =
     (lined 10)\<lparr>store := (store (lined 10))
        (5 := None, 6 \<mapsto> RequestBlock 15 [], 1 \<mapsto> RendererBlock broken_renderer),
      brk := 6, heap_free := 98785\<rparr>"

text \<open>
  States the functions reach from the queued state: after a third registration, after a
  registration whose texture is malformed, and after rendering.
\<close>

definition mesh_c :: mesh where
  "mesh_c =
     \<lparr>material = red_material, vbo_data = 6, buf_info = 9,
      texture = \<lparr>tex_data = 4096, tex_image = 9, mag_filter = GPU_LINEAR,
                  min_filter = GPU_NEAREST\<rparr>,
      vertex_count = 3\<rparr>"

definition third_world :: world where
  "third_world =
     queued_world\<lparr>store := (store queued_world)
        (1 \<mapsto> RendererBlock (queued_renderer\<lparr>n_meshes := 3\<rparr>),
         2 \<mapsto> MeshBlock 1000 [mesh_a, mesh_b, mesh_c, zero_mesh, zero_mesh, zero_mesh, zero_mesh, zero_mesh, zero_mesh, zero_mesh],
         6 \<mapsto> VertexBlock 96 triangle),
      brk := 6, linear_free := 99616,
      ctx_buf_info := [\<lparr>buf_data = 6, buf_stride = 32, buf_attrib_count = 3,
                       buf_permutation = 0x210\<rparr>],
      console := console queued_world @ [PrintMesh 3 32 96, PrintTexture 0, PrintTexture 4096]\<rparr>"

definition drawn_world :: world where
  "drawn_world =
     queued_world\<lparr>store := (store queued_world)
        (1 \<mapsto> RendererBlock (queued_renderer\<lparr>n_requests := 0\<rparr>)),
      gpu_log := gpu_log queued_world @
        [C3D_FVUnifMtx4x4 GPU_VERTEX_SHADER 0 identity_mtx,
         C3D_FVUnifMtx4x4 GPU_VERTEX_SHADER 4 identity_mtx,
         C3D_FVUnifMtx4x4 GPU_VERTEX_SHADER 11 (mtx_of_material red_material),
         C3D_FVUnifSet GPU_VERTEX_SHADER 8 0 0 (- 1) 0,
         C3D_FVUnifSet GPU_VERTEX_SHADER 9 0 0 (- 1) 0,
         C3D_FVUnifSet GPU_VERTEX_SHADER 10 1 1 1 1,
         C3D_TexBind 0 (texture mesh_b),
         C3D_DrawArrays GPU_TRIANGLES 0 6 (ctx_buf_info queued_world),
         C3D_FVUnifMtx4x4 GPU_VERTEX_SHADER 0 identity_mtx,
         C3D_FVUnifMtx4x4 GPU_VERTEX_SHADER 4 shift_mtx,
         C3D_FVUnifMtx4x4 GPU_VERTEX_SHADER 11 (mtx_of_material zero_material),
         C3D_FVUnifSet GPU_VERTEX_SHADER 8 0 0 (- 1) 0,
         C3D_FVUnifSet GPU_VERTEX_SHADER 9 0 0 (- 1) 0,
         C3D_FVUnifSet GPU_VERTEX_SHADER 10 1 1 1 1,
         C3D_TexBind 0 (texture mesh_a),
         C3D_DrawArrays GPU_TRIANGLES 0 3 (ctx_buf_info queued_world)],
      console := console queued_world @
        [PrintRow ''mvp'' 1 0 0 0, PrintRow ''   '' 1 0 0 0, PrintRow ''   '' 0 0 0 0,
         PrintRow ''   '' 0 0 0 0,
         PrintRow ''mvp'' 0 0 0 0, PrintRow ''   '' 0 0 0 0, PrintRow ''   '' 0 0 0 0,
         PrintRow ''   '' 0 0 0 0]\<rparr>"


definition third_drawn_world :: world where
  "third_drawn_world =
     third_world\<lparr>store := (store third_world)
        (1 \<mapsto> RendererBlock (queued_renderer\<lparr>n_meshes := 3, n_requests := 0\<rparr>)),
      gpu_log := gpu_log third_world @
        [C3D_FVUnifMtx4x4 GPU_VERTEX_SHADER 0 identity_mtx,
         C3D_FVUnifMtx4x4 GPU_VERTEX_SHADER 4 identity_mtx,
         C3D_FVUnifMtx4x4 GPU_VERTEX_SHADER 11 (mtx_of_material red_material),
         C3D_FVUnifSet GPU_VERTEX_SHADER 8 0 0 (- 1) 0,
         C3D_FVUnifSet GPU_VERTEX_SHADER 9 0 0 (- 1) 0,
         C3D_FVUnifSet GPU_VERTEX_SHADER 10 1 1 1 1,
         C3D_TexBind 0 (texture mesh_b),
         C3D_DrawArrays GPU_TRIANGLES 0 6 (ctx_buf_info third_world),
         C3D_FVUnifMtx4x4 GPU_VERTEX_SHADER 0 identity_mtx,
         C3D_FVUnifMtx4x4 GPU_VERTEX_SHADER 4 shift_mtx,
         C3D_FVUnifMtx4x4 GPU_VERTEX_SHADER 11 (mtx_of_material zero_material),
         C3D_FVUnifSet GPU_VERTEX_SHADER 8 0 0 (- 1) 0,
         C3D_FVUnifSet GPU_VERTEX_SHADER 9 0 0 (- 1) 0,
         C3D_FVUnifSet GPU_VERTEX_SHADER 10 1 1 1 1,
         C3D_TexBind 0 (texture mesh_a),
         C3D_DrawArrays GPU_TRIANGLES 0 3 (ctx_buf_info third_world)],
      console := console third_world @
        [PrintRow ''mvp'' 1 0 0 0, PrintRow ''   '' 1 0 0 0, PrintRow ''   '' 0 0 0 0,
         PrintRow ''   '' 0 0 0 0,
         PrintRow ''mvp'' 0 0 0 0, PrintRow ''   '' 0 0 0 0, PrintRow ''   '' 0 0 0 0,
         PrintRow ''   '' 0 0 0 0]\<rparr>"

text \<open>
  A triangle other than \<open>triangle\<close>, and the states reached from the queued state by
  registering it as the third mesh and then rendering.
\<close>

definition tilted :: "vertex list" where
  "tilted =
     [\<lparr>position = (0, 0, 5), texcoord = (0, 0), normal = (0, 1, 0)\<rparr>,
      \<lparr>position = (1, 0, 5), texcoord = (1, 0), normal = (0, 1, 0)\<rparr>,
      \<lparr>position = (0, 0, 6), texcoord = (0, 1), normal = (0, 1, 0)\<rparr>]"

definition tilted_world :: world where
  "tilted_world = third_world\<lparr>store := (store third_world)(6 \<mapsto> VertexBlock 96 tilted)\<rparr>"

definition tilted_drawn_world :: world where
  "tilted_drawn_world =
     third_drawn_world\<lparr>store := (store third_drawn_world)(6 \<mapsto> VertexBlock 96 tilted)\<rparr>"

section \<open>Basic facts\<close>

lemma and_then_Inl:
  "and_then m f = (Inl e, w') \<longleftrightarrow>
     m = (Inl e, w') \<or> (\<exists>y w1. m = (Inr y, w1) \<and> f y w1 = (Inl e, w'))"
  by (cases m) (auto simp: and_then_def split: sum.splits)

lemma update_this_Inr:
  "update_this this f w = (Inr u, w') \<longleftrightarrow>
     (\<exists>r. get_renderer w this = Some r \<and> w' = put_renderer this (f r) w)"
  by (auto simp: update_this_def split: option.splits)

lemma get_renderer_Some:
  "get_renderer w p = Some r \<longleftrightarrow> 0 < p \<and> p \<le> brk w \<and> store w p = Some (RendererBlock r)"
  by (auto simp: get_renderer_def deref_def split: option.splits block.splits)

lemma read_request_Inr:
  "read_request (requests r) i w = (Inr q, w') \<longleftrightarrow>
     i < length (request_array w r) \<and> q = request_array w r ! i \<and> w' = w"
  by (auto simp: read_request_def request_array_def split: option.splits block.splits)

lemma read_mesh_Inr:
  "read_mesh (meshes r) i w = (Inr m, w') \<longleftrightarrow>
     i < length (mesh_array w r) \<and> m = mesh_array w r ! i \<and> w' = w"
  by (auto simp: read_mesh_def mesh_array_def split: option.splits block.splits)

lemma emit_fields [simp]:
  "store (emit ps cs w) = store w"
  "brk (emit ps cs w) = brk w"
  "heap_free (emit ps cs w) = heap_free w"
  "linear_free (emit ps cs w) = linear_free w"
  "ctx_buf_info (emit ps cs w) = ctx_buf_info w"
  "gpu_log (emit ps cs w) = gpu_log w @ cs"
  "console (emit ps cs w) = console w @ ps"
  by (simp_all add: emit_def)

lemma emit_emit: "emit ps' cs' (emit ps cs w) = emit (ps @ ps') (cs @ cs') w"
  by (simp add: emit_def)

lemma emit_nil: "emit [] [] w = w"
  by (simp add: emit_def)

lemma emit_arrays [simp]:
  "get_renderer (emit ps cs w) p = get_renderer w p"
  "request_array (emit ps cs w) r = request_array w r"
  "mesh_array (emit ps cs w) r = mesh_array w r"
  by (simp_all add: get_renderer_def request_array_def mesh_array_def deref_def)

lemma render_request_at_Inr:
  "render_request_at this idx w = (Inr u, w') \<longleftrightarrow>
     (\<exists>r. get_renderer w this = Some r \<and> unat idx < length (request_array w r) \<and>
        unat (mesh_id (request_array w r ! unat idx)) < length (mesh_array w r) \<and>
        w' = emit (debug_rows (mesh_array w r ! unat (mesh_id (request_array w r ! unat idx))))
               (draw_calls r (request_array w r ! unat idx)
                  (mesh_array w r ! unat (mesh_id (request_array w r ! unat idx))) (ctx_buf_info w)) w)"
  by (auto simp: render_request_at_def and_then_Inr read_this_Inr read_request_Inr read_mesh_Inr
      split_def Let_def printf_def gpu_def emit_def debug_rows_def draw_calls_def)


lemma request_calls_emit [simp]:
  "request_calls (emit ps cs w) r = request_calls w r"
  "requested_mesh (emit ps cs w) r = requested_mesh w r"
  "in_bounds (emit ps cs w) r = in_bounds w r"
  by (simp_all add: request_calls_def requested_mesh_def in_bounds_def fun_eq_iff)

lemma render_loop_Inr:
  assumes "render_loop this idx w = (Inr u, w')" and "get_renderer w this = Some r"
  shows "(\<forall>i. unat idx \<le> i \<and> i < unat (n_requests r) \<longrightarrow> in_bounds w r i) \<and>
     w' = emit (concat (map (\<lambda>i. debug_rows (requested_mesh w r i)) [unat idx..<unat (n_requests r)]))
            (concat (map (request_calls w r) [unat idx..<unat (n_requests r)])) w"
  using assms
proof (induction this idx w rule: render_loop.induct)
  case (1 this idx w)
  note r = \<open>get_renderer w this = Some r\<close>
  show ?case
  proof (cases "idx < n_requests r")
    case False
    then have "unat (n_requests r) \<le> unat idx"
      by (simp add: word_less_nat_alt)
    moreover have "w' = w"
      using "1.prems" False by (simp add: render_loop.simps)
    ultimately show ?thesis
      by (auto simp: emit_nil)
  next
    case True
    then have lt: "unat idx < unat (n_requests r)"
      by (simp add: word_less_nat_alt)
    have unf: "render_loop this idx w =
        (case render_request_at this idx w of
           (Inl e, w') \<Rightarrow> (Inl e, w') | (Inr u, w') \<Rightarrow> render_loop this (idx + 1) w')"
      using r True by (simp add: render_loop.simps)
    obtain w1 where step: "render_request_at this idx w = (Inr (), w1)"
      and rest: "render_loop this (idx + 1) w1 = (Inr u, w')"
      using "1.prems"(1) unfolding unf
      by (cases "render_request_at this idx w") (auto split: sum.splits)
    from step r have here: "in_bounds w r (unat idx)"
      and w1: "w1 = emit (debug_rows (requested_mesh w r (unat idx))) (request_calls w r (unat idx)) w"
      by (auto simp: render_request_at_Inr in_bounds_def request_calls_def requested_mesh_def)
    have r1: "get_renderer w1 this = Some r"
      using r by (simp add: w1)
    have IH: "(\<forall>i. unat (idx + 1) \<le> i \<and> i < unat (n_requests r) \<longrightarrow> in_bounds w1 r i) \<and>
       w' = emit (concat (map (\<lambda>i. debug_rows (requested_mesh w1 r i)) [unat (idx + 1)..<unat (n_requests r)]))
            (concat (map (request_calls w1 r) [unat (idx + 1)..<unat (n_requests r)])) w1"
      using "1.IH" [OF r True step [symmetric] refl rest r1] .
    have suc: "unat (idx + 1) = Suc (unat idx)"
      by (rule unat_succ_less [OF True])
    have upt: "[unat idx..<unat (n_requests r)] = unat idx # [Suc (unat idx)..<unat (n_requests r)]"
      using lt by (simp add: upt_conv_Cons)
    have "\<forall>i. unat idx \<le> i \<and> i < unat (n_requests r) \<longrightarrow> in_bounds w r i"
    proof (intro allI impI)
      fix i assume "unat idx \<le> i \<and> i < unat (n_requests r)"
      then consider "i = unat idx" | "Suc (unat idx) \<le> i" "i < unat (n_requests r)"
        by linarith
      then show "in_bounds w r i"
        using here IH by cases (simp_all add: suc w1)
    qed
    moreover have "w' = emit (concat (map (\<lambda>i. debug_rows (requested_mesh w r i)) [unat idx..<unat (n_requests r)]))
            (concat (map (request_calls w r) [unat idx..<unat (n_requests r)])) w"
      using IH by (simp add: suc upt w1 emit_emit)
    ultimately show ?thesis
      by blast
  qed
qed

lemma get_renderer_put:
  "get_renderer w this = Some r \<Longrightarrow>
     get_renderer (put_renderer this r' w) p = (if p = this then Some r' else get_renderer w p)"
  by (auto simp: get_renderer_def deref_def put_renderer_def split: option.splits block.splits if_splits)

lemma deref_put_renderer:
  "p \<noteq> this \<Longrightarrow> deref (put_renderer this r' w) p = deref w p"
  by (simp add: deref_def put_renderer_def)

lemma put_renderer_fields [simp]:
  "brk (put_renderer this r w) = brk w"
  "heap_free (put_renderer this r w) = heap_free w"
  "linear_free (put_renderer this r w) = linear_free w"
  "gpu_log (put_renderer this r w) = gpu_log w"
  "ctx_buf_info (put_renderer this r w) = ctx_buf_info w"
  "console (put_renderer this r w) = console w"
  by (simp_all add: put_renderer_def)

lemma put_renderer_same:
  "get_renderer w this = Some r \<Longrightarrow> put_renderer this r w = w"
  by (simp add: get_renderer_Some put_renderer_def fun_upd_idem)

lemma renderer_render_Inr:
  assumes "renderer_render this w = (Inr u, w')" and r: "get_renderer w this = Some r"
  shows "(\<forall>i < unat (n_requests r). in_bounds w r i) \<and>
     w' = put_renderer this (r\<lparr>n_requests := 0\<rparr>)
            (emit (concat (map (\<lambda>i. debug_rows (requested_mesh w r i)) [0..<unat (n_requests r)]))
               (concat (map (request_calls w r) [0..<unat (n_requests r)])) w)"
proof -
  from assms obtain w1 where loop: "render_loop this 0 w = (Inr (), w1)"
    and fin: "update_this this (\<lambda>r. r\<lparr>n_requests := 0\<rparr>) w1 = (Inr u, w')"
    by (auto simp: renderer_render_def and_then_Inr panic_def split: if_splits)
  from render_loop_Inr [OF loop r]
  have b: "\<forall>i < unat (n_requests r). in_bounds w r i"
    and w1: "w1 = emit (concat (map (\<lambda>i. debug_rows (requested_mesh w r i)) [0..<unat (n_requests r)]))
               (concat (map (request_calls w r) [0..<unat (n_requests r)])) w"
    by simp_all
  have "get_renderer w1 this = Some r"
    using r by (simp add: w1)
  with fin have "w' = put_renderer this (r\<lparr>n_requests := 0\<rparr>) w1"
    by (simp add: update_this_Inr)
  with b w1 show ?thesis
    by simp
qed

lemma filter_draw_calls:
  "filter is_draw (draw_calls r q m bufs) = [C3D_DrawArrays GPU_TRIANGLES 0 (vertex_count m) bufs]"
  by (simp add: draw_calls_def)

lemma filter_concat_map: "filter P (concat (map f xs)) = concat (map (\<lambda>x. filter P (f x)) xs)"
  by (induction xs) simp_all

lemma arrays_put_renderer:
  assumes "get_renderer w this = Some r0"
  shows "request_array (put_renderer this r' w) r = request_array w r"
    and "mesh_array (put_renderer this r' w) r = mesh_array w r"
  using assms
  by (auto simp: request_array_def mesh_array_def get_renderer_def deref_def put_renderer_def
      split: option.splits block.splits if_splits)

lemma write_mesh_Inr:
  "write_mesh p i f w = (Inr u, w') \<longleftrightarrow>
     (\<exists>n ms. deref w p = Some (MeshBlock n ms) \<and> i < length ms \<and>
        w' = w\<lparr>store := (store w)(p \<mapsto> MeshBlock n (ms[i := f (ms ! i)]))\<rparr>)"
  by (auto simp: write_mesh_def split: option.splits block.splits)

lemma deref_store_upd:
  "deref w p = Some b0 \<Longrightarrow>
     deref (w\<lparr>store := (store w)(p \<mapsto> b)\<rparr>) = (deref w)(p \<mapsto> b)"
  by (auto simp: deref_def fun_eq_iff split: if_splits)

lemma deref_quiet [simp]:
  "deref (printf l w) = deref w"
  "deref (gpu c w) = deref w"
  "deref (BufInfo_Init w) = deref w"
  "deref (BufInfo_Add d s a p w) = deref w"
  by (simp_all add: fun_eq_iff deref_def printf_def gpu_def BufInfo_Init_def BufInfo_Add_def)

lemma brk_quiet [simp]:
  "brk (printf l w) = brk w"
  "brk (gpu c w) = brk w"
  "brk (BufInfo_Init w) = brk w"
  "brk (BufInfo_Add d s a p w) = brk w"
  by (simp_all add: printf_def gpu_def BufInfo_Init_def BufInfo_Add_def)

lemma write_mesh_effect:
  assumes "write_mesh p i f w = (Inr u, w')"
  shows "\<exists>n ms. deref w p = Some (MeshBlock n ms) \<and> i < length ms \<and>
     deref w' = (deref w)(p \<mapsto> MeshBlock n (ms[i := f (ms ! i)]))"
    and "brk w' = brk w" and "heap_free w' = heap_free w" and "linear_free w' = linear_free w"
    and "gpu_log w' = gpu_log w" and "ctx_buf_info w' = ctx_buf_info w" and "console w' = console w"
  using assms by (auto simp: write_mesh_Inr deref_store_upd)

lemma linearAlloc_effect:
  assumes "linearAlloc n w = (Inr vbo, w')"
  shows "(vbo = 0 \<and> w' = w) \<or>
     (vbo = Suc (brk w) \<and> n \<le> linear_free w \<and> deref w vbo = None \<and>
      deref w' = (deref w)(vbo \<mapsto> VertexBlock n []) \<and> brk w' = Suc (brk w) \<and>
      heap_free w' = heap_free w \<and> linear_free w' = linear_free w - n)"
    and "gpu_log w' = gpu_log w" and "ctx_buf_info w' = ctx_buf_info w" and "console w' = console w"
  using assms by (auto simp: linearAlloc_def deref_def fun_eq_iff split: if_splits)

lemma memcpy_vertices_effect:
  assumes "memcpy_vertices dst src n w = (Inr u, w')"
  shows "\<exists>cap vs. deref w dst = Some (VertexBlock cap vs) \<and> n \<le> cap \<and>
     n \<le> sizeof_vertex * length src \<and>
     deref w' = (deref w)(dst \<mapsto> VertexBlock cap
        (take (n div sizeof_vertex) src @ drop (n div sizeof_vertex) vs))"
    and "brk w' = brk w" and "heap_free w' = heap_free w" and "linear_free w' = linear_free w"
    and "gpu_log w' = gpu_log w" and "ctx_buf_info w' = ctx_buf_info w" and "console w' = console w"
  using assms
  by (auto simp: memcpy_vertices_def deref_store_upd split: option.splits block.splits if_splits)

lemma read_mesh_effect:
  assumes "read_mesh p i w = (Inr m, w')"
  shows "\<exists>n ms. deref w p = Some (MeshBlock n ms) \<and> i < length ms \<and> m = ms ! i" and "w' = w"
  using assms by (auto simp: read_mesh_def split: option.splits block.splits if_splits)

lemma register_geometry_Inr:
  assumes "register_geometry mesh i vs nv mat w = (Inr u, w')"
  shows "\<exists>n ms. deref w mesh = Some (MeshBlock n ms) \<and> i < length ms \<and>
           deref w (Suc (brk w)) = None \<and>
           deref w' = (deref w)
             (mesh \<mapsto> MeshBlock n (ms[i := (ms ! i)\<lparr>material := mat, vbo_data := Suc (brk w),
                                                  vertex_count := nv\<rparr>]),
              Suc (brk w) \<mapsto> VertexBlock (unat (word_of_nat sizeof_vertex * nv :: size_t))
                 (take (unat (word_of_nat sizeof_vertex * nv :: size_t) div sizeof_vertex) vs))"
    and "brk w' = Suc (brk w)" and "heap_free w' = heap_free w"
    and "gpu_log w' = gpu_log w" and "ctx_buf_info w' = ctx_buf_info w"
proof -
  let ?size = "unat (word_of_nat sizeof_vertex * nv :: size_t)"
  from assms obtain w1 vbo w2 w3 w4 w5 w6 m where
    s1: "write_mesh mesh i (\<lambda>m. m\<lparr>material := mat\<rparr>) w = (Inr (), w1)" and
    s2: "linearAlloc ?size w1 = (Inr vbo, w2)" and
    s3: "write_mesh mesh i (\<lambda>m. m\<lparr>vbo_data := vbo\<rparr>) w2 = (Inr (), w3)" and
    s4: "memcpy_vertices vbo vs ?size w3 = (Inr (), w4)" and
    s5: "write_mesh mesh i (\<lambda>m. m\<lparr>vertex_count := nv\<rparr>) w4 = (Inr (), w5)" and
    s6: "read_mesh mesh i w5 = (Inr m, w6)" and
    w6: "w' = printf (PrintTexture (tex_data (texture m)))
               (printf (PrintMesh nv sizeof_vertex (word_of_nat sizeof_vertex * nv)) w6)"
    by (auto simp: register_geometry_def Let_def and_then_Inr panic_def split: if_splits)
  have w': "w' = printf (PrintTexture (tex_data (texture m)))
               (printf (PrintMesh nv sizeof_vertex (word_of_nat sizeof_vertex * nv)) w5)"
    using read_mesh_Inr_world [OF s6] w6 by simp
  from write_mesh_effect [OF s1] obtain n ms where
    d0: "deref w mesh = Some (MeshBlock n ms)" and i: "i < length ms" and
    d1: "deref w1 = (deref w)(mesh \<mapsto> MeshBlock n (ms[i := (ms ! i)\<lparr>material := mat\<rparr>]))" and
    b1: "brk w1 = brk w"
    by blast
  have mesh_le: "mesh \<le> brk w"
    using d0 by (simp add: deref_def split: if_splits)
  from memcpy_vertices_effect(1) [OF s4] have "deref w3 vbo \<noteq> None"
    by auto
  then have "vbo \<noteq> 0"
    by (auto simp: deref_def split: if_splits)
  with linearAlloc_effect(1) [OF s2] have
    vbo: "vbo = Suc (brk w)" and fresh: "deref w1 vbo = None" and
    d2: "deref w2 = (deref w1)(vbo \<mapsto> VertexBlock ?size [])" and b2: "brk w2 = Suc (brk w)"
    by (auto simp: b1)
  have ne: "vbo \<noteq> mesh"
    using vbo mesh_le by simp
  from write_mesh_effect [OF s3] have
    d3: "deref w3 = (deref w2)(mesh \<mapsto> MeshBlock n (ms[i := (ms ! i)\<lparr>material := mat, vbo_data := vbo\<rparr>]))"
    and b3: "brk w3 = brk w2"
    using ne i by (auto simp: d2 d1)
  from memcpy_vertices_effect [OF s4] have
    d4: "deref w4 = (deref w3)(vbo \<mapsto> VertexBlock ?size (take (?size div sizeof_vertex) vs))"
    and b4: "brk w4 = brk w3"
    using ne by (auto simp: d3 d2)
  from write_mesh_effect [OF s5] have
    d5: "deref w5 = (deref w4)(mesh \<mapsto> MeshBlock n
           (ms[i := (ms ! i)\<lparr>material := mat, vbo_data := vbo, vertex_count := nv\<rparr>]))"
    and b5: "brk w5 = brk w4"
    using ne i by (auto simp: d4 d3)
  have dw': "deref w' = deref w5" "brk w' = brk w5"
    by (simp_all add: w')
  have "deref w (Suc (brk w)) = None"
    by (simp add: deref_def)
  moreover have "deref w' = (deref w)
             (mesh \<mapsto> MeshBlock n (ms[i := (ms ! i)\<lparr>material := mat, vbo_data := Suc (brk w),
                                                  vertex_count := nv\<rparr>]),
              Suc (brk w) \<mapsto> VertexBlock ?size (take (?size div sizeof_vertex) vs))"
    using ne by (auto simp: dw' d5 d4 d3 d2 d1 vbo fun_eq_iff)
  ultimately show "\<exists>n ms. deref w mesh = Some (MeshBlock n ms) \<and> i < length ms \<and>
           deref w (Suc (brk w)) = None \<and>
           deref w' = (deref w)
             (mesh \<mapsto> MeshBlock n (ms[i := (ms ! i)\<lparr>material := mat, vbo_data := Suc (brk w),
                                                  vertex_count := nv\<rparr>]),
              Suc (brk w) \<mapsto> VertexBlock ?size (take (?size div sizeof_vertex) vs))"
    using d0 i by blast
  show "brk w' = Suc (brk w)"
    by (simp add: dw' b5 b4 b3 b2)
  show "heap_free w' = heap_free w"
    using write_mesh_effect(3) [OF s1] linearAlloc_effect(1) [OF s2] \<open>vbo \<noteq> 0\<close>
      write_mesh_effect(3) [OF s3] memcpy_vertices_effect(3) [OF s4] write_mesh_effect(3) [OF s5]
    by (auto simp: w' printf_def)
  show "gpu_log w' = gpu_log w"
    using write_mesh_effect(5) [OF s1] linearAlloc_effect(2) [OF s2]
      write_mesh_effect(5) [OF s3] memcpy_vertices_effect(5) [OF s4] write_mesh_effect(5) [OF s5]
    by (simp add: w' printf_def)
  show "ctx_buf_info w' = ctx_buf_info w"
    using write_mesh_effect(6) [OF s1] linearAlloc_effect(3) [OF s2]
      write_mesh_effect(6) [OF s3] memcpy_vertices_effect(6) [OF s4] write_mesh_effect(6) [OF s5]
    by (simp add: w' printf_def)
qed

lemma panic_simps [simp]:
  "panic l m w = (Inl e, w') \<longleftrightarrow> e = Panic l m \<and> w' = w"
  "panic l m w \<noteq> (Inr x, w')"
  by (auto simp: panic_def)

lemma update_this_Inl:
  "update_this this f w = (Inl e, w') \<longleftrightarrow>
     get_renderer w this = None \<and> e = Undefined ''this'' \<and> w' = w"
  by (auto simp: update_this_def split: option.splits)

lemma read_this_Inl:
  "read_this this w = (Inl e, w') \<longleftrightarrow>
     get_renderer w this = None \<and> e = Undefined ''this'' \<and> w' = w"
  by (auto simp: read_this_def split: option.splits)

lemma write_mesh_Inl:
  "write_mesh p i f w = (Inl e, w') \<Longrightarrow> (\<exists>s. e = Undefined s) \<and> w' = w"
  by (auto simp: write_mesh_def split: option.splits block.splits if_splits)

lemma read_mesh_Inl:
  "read_mesh p i w = (Inl e, w') \<Longrightarrow> (\<exists>s. e = Undefined s) \<and> w' = w"
  by (auto simp: read_mesh_def split: option.splits block.splits if_splits)

lemma memcpy_vertices_Inl:
  "memcpy_vertices dst src n w = (Inl e, w') \<Longrightarrow> (\<exists>s. e = Undefined s) \<and> w' = w"
  by (auto simp: memcpy_vertices_def split: option.splits block.splits if_splits)

lemma malloc_Inl [simp]: "malloc n b w \<noteq> (Inl e, w')"
  by (simp add: malloc_def)

lemma linearAlloc_Inl [simp]: "linearAlloc n w \<noteq> (Inl e, w')"
  by (simp add: linearAlloc_def)

lemma realloc_Inl:
  "realloc E p n w = (Inl e, w') \<Longrightarrow> (\<exists>s. e = Undefined s) \<and> w' = w"
  by (auto simp: realloc_def split: option.splits if_splits)

lemma malloc_effect:
  assumes "malloc n b w = (Inr p, w')"
  shows "(p = 0 \<and> w' = w) \<or>
     (p = Suc (brk w) \<and> n \<le> heap_free w \<and> deref w p = None \<and>
      deref w' = (deref w)(p \<mapsto> b) \<and> brk w' = Suc (brk w) \<and>
      heap_free w' = heap_free w - n \<and> linear_free w' = linear_free w)"
    and "gpu_log w' = gpu_log w" and "ctx_buf_info w' = ctx_buf_info w" and "console w' = console w"
  using assms by (auto simp: malloc_def deref_def fun_eq_iff split: if_splits)

lemma realloc_effect:
  assumes "realloc E p n w = (Inr q, w')"
  shows "\<exists>b b'. deref w p = Some b \<and> resized E n b = Some b' \<and>
     ((q = 0 \<and> w' = w \<and> heap_free w + block_size E b < n) \<or>
      (q = Suc (brk w) \<and> n \<le> heap_free w + block_size E b \<and>
       deref w' = (deref w)(p := None, q \<mapsto> b') \<and> brk w' = Suc (brk w) \<and>
       heap_free w' = heap_free w + block_size E b - n \<and> linear_free w' = linear_free w))"
    and "gpu_log w' = gpu_log w" and "ctx_buf_info w' = ctx_buf_info w" and "console w' = console w"
  using assms
  by (auto simp: realloc_def deref_def fun_eq_iff split: option.splits if_splits)

lemma get_renderer_deref: "get_renderer w p = (case deref w p of Some (RendererBlock r) \<Rightarrow> Some r | _ \<Rightarrow> None)"
  by (simp add: get_renderer_def)

lemma get_renderer_eq:
  "deref w' p = deref w p \<Longrightarrow> get_renderer w' p = get_renderer w p"
  by (simp add: get_renderer_def)

lemma deref_put_renderer_full:
  "get_renderer w this = Some r \<Longrightarrow>
     deref (put_renderer this r' w) = (deref w)(this \<mapsto> RendererBlock r')"
  by (auto simp: get_renderer_def deref_def put_renderer_def fun_eq_iff
      split: option.splits block.splits if_splits)

lemma update_this_effect:
  assumes "update_this this f w = (Inr u, w')"
  shows "\<exists>r. get_renderer w this = Some r \<and> deref w' = (deref w)(this \<mapsto> RendererBlock (f r))"
    and "brk w' = brk w" and "heap_free w' = heap_free w" and "linear_free w' = linear_free w"
    and "gpu_log w' = gpu_log w" and "ctx_buf_info w' = ctx_buf_info w" and "console w' = console w"
  using assms by (auto simp: update_this_Inr deref_put_renderer_full)

lemma new_mesh_Inr:
  assumes "new_mesh E this w = (Inr ret, w')" and r: "get_renderer w this = Some r"
  shows "ret = n_meshes r"
    and "\<exists>r'. get_renderer w' this = Some r' \<and> n_meshes r' = n_meshes r + 1"
    and "gpu_log w' = gpu_log w" and "ctx_buf_info w' = ctx_buf_info w" and "console w' = console w"
    and "linear_free w' = linear_free w"
proof -
  from assms obtain w1 w2 r2 where
    grow: "(if meshes r = 0 then
             and_then (malloc (10 * sizeof_mesh E) (fresh_meshes E (10 * sizeof_mesh E)) w)
               (\<lambda>p w.
             and_then (update_this this (\<lambda>r. r\<lparr>meshes := p\<rparr>) w) (\<lambda>_ w.
             if p = 0 then panic 62 ''failed malloc'' w
             else update_this this (\<lambda>r. r\<lparr>capacity_meshes := 10\<rparr>) w))
           else if n_meshes r = capacity_meshes r then
             (let newcap = (capacity_meshes r * 3) div 2 in
              and_then (realloc E (meshes r) (unat newcap) w) (\<lambda>p w.
              and_then (update_this this (\<lambda>r. r\<lparr>meshes := p\<rparr>) w) (\<lambda>_ w.
              if p = 0 then panic 68 ''failed realloc'' w
              else update_this this (\<lambda>r. r\<lparr>capacity_meshes := newcap\<rparr>) w)))
           else (Inr (), w)) = (Inr (), w1)"
    and inc: "update_this this (\<lambda>r. r\<lparr>n_meshes := n_meshes r + 1\<rparr>) w1 = (Inr (), w2)"
    and rd: "get_renderer w2 this = Some r2" and ret: "ret = n_meshes r2 - 1" and w': "w' = w2"
    by (auto simp: new_mesh_def and_then_Inr read_this_Inr split: if_splits)
  have g: "(\<exists>r1. get_renderer w1 this = Some r1 \<and> n_meshes r1 = n_meshes r) \<and>
      gpu_log w1 = gpu_log w \<and> ctx_buf_info w1 = ctx_buf_info w \<and> console w1 = console w \<and>
      linear_free w1 = linear_free w"
  proof (cases "meshes r = 0")
    case True
    with grow obtain p wa wb where
      a: "malloc (10 * sizeof_mesh E) (fresh_meshes E (10 * sizeof_mesh E)) w = (Inr p, wa)" and
      b: "update_this this (\<lambda>r. r\<lparr>meshes := p\<rparr>) wa = (Inr (), wb)" and
      c: "update_this this (\<lambda>r. r\<lparr>capacity_meshes := 10\<rparr>) wb = (Inr (), w1)" and "p \<noteq> 0"
      by (auto simp: and_then_Inr split: if_splits)
    have this_le: "this \<le> brk w"
      using r by (simp add: get_renderer_Some)
    from malloc_effect(1) [OF a] \<open>p \<noteq> 0\<close> have
      da: "deref wa = (deref w)(p \<mapsto> fresh_meshes E (10 * sizeof_mesh E))" and p: "p = Suc (brk w)"
      and la: "linear_free wa = linear_free w"
      by auto
    have ra: "get_renderer wa this = Some r"
      using r this_le p by (simp add: get_renderer_deref da)
    from update_this_effect(1) [OF b] ra have
      rb: "get_renderer wb this = Some (r\<lparr>meshes := p\<rparr>)"
      by (auto simp: get_renderer_deref)
    from update_this_effect(1) [OF c] rb have
      "get_renderer w1 this = Some (r\<lparr>meshes := p, capacity_meshes := 10\<rparr>)"
      by (auto simp: get_renderer_deref)
    then show ?thesis
      using malloc_effect(2-4) [OF a] update_this_effect(4-7) [OF b] update_this_effect(4-7) [OF c] la
      by simp
  next
    case False
    show ?thesis
    proof (cases "n_meshes r = capacity_meshes r")
      case True
      with False grow obtain p wa wb where
        a: "realloc E (meshes r) (unat ((capacity_meshes r * 3) div 2)) w = (Inr p, wa)" and
        b: "update_this this (\<lambda>r. r\<lparr>meshes := p\<rparr>) wa = (Inr (), wb)" and
        c: "update_this this (\<lambda>x. x\<lparr>capacity_meshes := (capacity_meshes r * 3) div 2\<rparr>) wb = (Inr (), w1)"
        and "p \<noteq> 0"
        by (auto simp: and_then_Inr Let_def split: if_splits)
      have this_le: "this \<le> brk w"
        using r by (simp add: get_renderer_Some)
      from realloc_effect(1) [OF a] \<open>p \<noteq> 0\<close> obtain b' where
        da: "deref wa = (deref w)(meshes r := None, p \<mapsto> b')" and p: "p = Suc (brk w)"
        and la: "linear_free wa = linear_free w"
        by auto
      from update_this_effect(1) [OF b] obtain ra where ra: "get_renderer wa this = Some ra"
        by auto
      have "meshes r \<noteq> this"
        using ra this_le p by (auto simp: get_renderer_deref da split: if_splits)
      then have ra': "get_renderer wa this = Some r"
        using r this_le p by (simp add: get_renderer_deref da)
      from update_this_effect(1) [OF b] ra' have
        rb: "get_renderer wb this = Some (r\<lparr>meshes := p\<rparr>)"
        by (auto simp: get_renderer_deref)
      from update_this_effect(1) [OF c] rb have
        "get_renderer w1 this =
           Some (r\<lparr>meshes := p, capacity_meshes := (capacity_meshes r * 3) div 2\<rparr>)"
        by (auto simp: get_renderer_deref)
      then show ?thesis
        using realloc_effect(2-4) [OF a] update_this_effect(4-7) [OF b]
          update_this_effect(4-7) [OF c] la
        by simp
    next
      case neq: False
      with False grow have "w1 = w"
        by simp
      then show ?thesis
        using r by simp
    qed
  qed
  then obtain r1 where r1: "get_renderer w1 this = Some r1" and n1: "n_meshes r1 = n_meshes r"
    by blast
  from update_this_effect(1) [OF inc] r1 have
    r2': "get_renderer w2 this = Some (r1\<lparr>n_meshes := n_meshes r1 + 1\<rparr>)"
    by (auto simp: get_renderer_deref)
  with rd have r2: "r2 = r1\<lparr>n_meshes := n_meshes r1 + 1\<rparr>"
    by simp
  show "ret = n_meshes r"
    by (simp add: ret r2 n1)
  show "\<exists>r'. get_renderer w' this = Some r' \<and> n_meshes r' = n_meshes r + 1"
    using r2' by (simp add: w' n1)
  show "gpu_log w' = gpu_log w" "ctx_buf_info w' = ctx_buf_info w" "console w' = console w"
    "linear_free w' = linear_free w"
    using g update_this_effect(4-7) [OF inc] by (simp_all add: w')
qed

lemma new_mesh_Inl_line:
  "new_mesh E this w = (Inl (Panic l m), w') \<Longrightarrow> l = 58 \<or> l = 62 \<or> l = 68"
  by (auto simp: new_mesh_def and_then_Inl and_then_Inr read_this_Inl read_this_Inr update_this_Inl
      Let_def split: if_splits dest: realloc_Inl)

lemma register_geometry_Inl_line:
  "register_geometry mesh i vs nv mat w = (Inl (Panic l m), w') \<Longrightarrow> l = 107"
  by (auto simp: register_geometry_def and_then_Inl and_then_Inr Let_def split: if_splits
      dest: write_mesh_Inl read_mesh_Inl memcpy_vertices_Inl)


lemma register_texture_Inr:
  assumes "register_texture E mesh i td ts w = (Inr u, w')"
  shows "\<exists>n ms t. deref w mesh = Some (MeshBlock n ms) \<and> i < length ms \<and>
           Tex3DS_TextureImport E (take (unat ts) td) = Some t \<and>
           deref w' = (deref w)
             (mesh \<mapsto> MeshBlock n (ms[i := (ms ! i)\<lparr>
                 texture := t\<lparr>mag_filter := GPU_LINEAR, min_filter := GPU_NEAREST\<rparr>,
                 buf_info := C3D_GetBufInfo E\<rparr>])) \<and>
           ctx_buf_info w' = [\<lparr>buf_data = vbo_data (ms ! i), buf_stride = sizeof_vertex,
              buf_attrib_count = 3, buf_permutation = 0x210\<rparr>]"
    and "brk w' = brk w" and "gpu_log w' = gpu_log w"
proof -
  from assms obtain t w1 w2 m w3 w4 m' w5 where
    imp: "Tex3DS_TextureImport E (take (unat ts) td) = Some t" and
    s1: "write_mesh mesh i (\<lambda>m. m\<lparr>texture := t\<rparr>) w = (Inr (), w1)" and
    s2: "write_mesh mesh i (\<lambda>m. m\<lparr>texture :=
           (texture m)\<lparr>mag_filter := GPU_LINEAR, min_filter := GPU_NEAREST\<rparr>\<rparr>) w1 = (Inr (), w2)" and
    s3: "read_mesh mesh i w2 = (Inr m, w3)" and
    s4: "write_mesh mesh i (\<lambda>m. m\<lparr>buf_info := C3D_GetBufInfo E\<rparr>)
           (printf (PrintTexture (tex_data (texture m))) w3) = (Inr (), w4)" and
    s5: "read_mesh mesh i w4 = (Inr m', w5)" and
    w': "w' = BufInfo_Add (vbo_data m') sizeof_vertex 3 0x210 (BufInfo_Init w5)"
    by (auto simp: register_texture_def and_then_Inr Let_def split: if_splits option.splits)
  have w3: "w3 = w2" and w5: "w5 = w4"
    using read_mesh_Inr_world [OF s3] read_mesh_Inr_world [OF s5] by simp_all
  from write_mesh_effect(1) [OF s1] obtain n ms where
    d0: "deref w mesh = Some (MeshBlock n ms)" and i: "i < length ms" and
    d1: "deref w1 = (deref w)(mesh \<mapsto> MeshBlock n (ms[i := (ms ! i)\<lparr>texture := t\<rparr>]))"
    by blast
  from write_mesh_effect(1) [OF s2] have
    d2: "deref w2 = (deref w1)(mesh \<mapsto> MeshBlock n (ms[i := (ms ! i)\<lparr>texture :=
           t\<lparr>mag_filter := GPU_LINEAR, min_filter := GPU_NEAREST\<rparr>\<rparr>]))"
    using i by (auto simp: d1)
  from write_mesh_effect(1) [OF s4] have
    d4: "deref w4 = (deref w2)(mesh \<mapsto> MeshBlock n (ms[i := (ms ! i)\<lparr>texture :=
           t\<lparr>mag_filter := GPU_LINEAR, min_filter := GPU_NEAREST\<rparr>,
           buf_info := C3D_GetBufInfo E\<rparr>]))"
    using i by (auto simp: d2 w3)
  from read_mesh_effect(1) [OF s5] have m': "vbo_data m' = vbo_data (ms ! i)"
    using i by (auto simp: d4)
  have "deref w' = (deref w)
             (mesh \<mapsto> MeshBlock n (ms[i := (ms ! i)\<lparr>
                 texture := t\<lparr>mag_filter := GPU_LINEAR, min_filter := GPU_NEAREST\<rparr>,
                 buf_info := C3D_GetBufInfo E\<rparr>]))"
    by (simp add: w' w5 d4 d2 d1)
  moreover have "ctx_buf_info w' = [\<lparr>buf_data = vbo_data (ms ! i), buf_stride = sizeof_vertex,
              buf_attrib_count = 3, buf_permutation = 0x210\<rparr>]"
    by (simp add: w' BufInfo_Add_def BufInfo_Init_def m')
  ultimately show "\<exists>n ms t. deref w mesh = Some (MeshBlock n ms) \<and> i < length ms \<and>
           Tex3DS_TextureImport E (take (unat ts) td) = Some t \<and>
           deref w' = (deref w)
             (mesh \<mapsto> MeshBlock n (ms[i := (ms ! i)\<lparr>
                 texture := t\<lparr>mag_filter := GPU_LINEAR, min_filter := GPU_NEAREST\<rparr>,
                 buf_info := C3D_GetBufInfo E\<rparr>])) \<and>
           ctx_buf_info w' = [\<lparr>buf_data = vbo_data (ms ! i), buf_stride = sizeof_vertex,
              buf_attrib_count = 3, buf_permutation = 0x210\<rparr>]"
    using d0 i imp by blast
  show "brk w' = brk w"
    using write_mesh_effect(2) [OF s1] write_mesh_effect(2) [OF s2] write_mesh_effect(2) [OF s4]
    by (simp add: w' w5 w3)
  show "gpu_log w' = gpu_log w"
    using write_mesh_effect(5) [OF s1] write_mesh_effect(5) [OF s2] write_mesh_effect(5) [OF s4]
    by (simp add: w' w5 w3 printf_def BufInfo_Add_def BufInfo_Init_def)
qed

lemma slot_after_geometry:
  assumes r: "get_renderer w this = Some r"
    and nm: "new_mesh E this w = (Inr ret, w1)"
    and r1: "get_renderer w1 this = Some r1"
    and geo: "register_geometry (meshes r1) (unat ret) vs nv mat w1 = (Inr (), w2)"
  shows "ret = n_meshes r" and "n_meshes r1 = n_meshes r + 1"
    and "get_renderer w2 this = Some r1"
    and "\<exists>n ms. mesh_array w1 r1 = ms \<and> unat ret < length ms \<and>
           deref w2 (meshes r1) = Some (MeshBlock n (ms[unat ret := (ms ! unat ret)\<lparr>material := mat,
              vbo_data := Suc (brk w1), vertex_count := nv\<rparr>]))"
    and "deref w2 (Suc (brk w1)) = Some (VertexBlock (unat (word_of_nat sizeof_vertex * nv :: size_t))
           (take (unat (word_of_nat sizeof_vertex * nv :: size_t) div sizeof_vertex) vs))"
    and "gpu_log w2 = gpu_log w" and "ctx_buf_info w2 = ctx_buf_info w"
proof -
  show ret: "ret = n_meshes r"
    by (rule new_mesh_Inr(1) [OF nm r])
  from new_mesh_Inr(2) [OF nm r] r1 show "n_meshes r1 = n_meshes r + 1"
    by auto
  from register_geometry_Inr(1) [OF geo] obtain n ms where
    d1: "deref w1 (meshes r1) = Some (MeshBlock n ms)" and i: "unat ret < length ms" and
    fresh: "deref w1 (Suc (brk w1)) = None" and
    d2: "deref w2 = (deref w1)
             (meshes r1 \<mapsto> MeshBlock n (ms[unat ret := (ms ! unat ret)\<lparr>material := mat,
                 vbo_data := Suc (brk w1), vertex_count := nv\<rparr>]),
              Suc (brk w1) \<mapsto> VertexBlock (unat (word_of_nat sizeof_vertex * nv :: size_t))
                 (take (unat (word_of_nat sizeof_vertex * nv :: size_t) div sizeof_vertex) vs))"
    by blast
  have ne1: "meshes r1 \<noteq> this" and ne2: "Suc (brk w1) \<noteq> this" and ne3: "Suc (brk w1) \<noteq> meshes r1"
    using r1 d1 fresh by (auto simp: get_renderer_deref split: option.splits block.splits)
  show "get_renderer w2 this = Some r1"
    using r1 ne1 ne2 by (simp add: get_renderer_deref d2)
  show "\<exists>n ms. mesh_array w1 r1 = ms \<and> unat ret < length ms \<and>
           deref w2 (meshes r1) = Some (MeshBlock n (ms[unat ret := (ms ! unat ret)\<lparr>material := mat,
              vbo_data := Suc (brk w1), vertex_count := nv\<rparr>]))"
    using d1 i ne3 by (simp add: mesh_array_def d2)
  show "deref w2 (Suc (brk w1)) = Some (VertexBlock (unat (word_of_nat sizeof_vertex * nv :: size_t))
           (take (unat (word_of_nat sizeof_vertex * nv :: size_t) div sizeof_vertex) vs))"
    by (simp add: d2)
  show "gpu_log w2 = gpu_log w" "ctx_buf_info w2 = ctx_buf_info w"
    using register_geometry_Inr(4,5) [OF geo] new_mesh_Inr(3,4) [OF nm r] by simp_all
qed

lemma new_mesh_not_114: "new_mesh E this w \<noteq> (Inl (Panic 114 m), w')"
  using new_mesh_Inl_line [of E this w 114 m w'] by auto

lemma register_geometry_not_114: "register_geometry mesh i vs nv mat w \<noteq> (Inl (Panic 114 m), w')"
  using register_geometry_Inl_line [of mesh i vs nv mat w 114 m w'] by auto

lemma register_reaches_texture:
  assumes "renderer_register_mesh E this vertices nv texture_data ts mat w = (res, w')"
    and "res = Inr h \<or> res = Inl (Panic 114 msg)"
  shows "\<exists>vs td ret w1 r1 w2. vertices = Some vs \<and> texture_data = Some td \<and>
     new_mesh E this w = (Inr ret, w1) \<and> get_renderer w1 this = Some r1 \<and>
     register_geometry (meshes r1) (unat ret) vs nv mat w1 = (Inr (), w2) \<and>
     (case res of
        Inl e \<Rightarrow> register_texture E (meshes r1) (unat ret) td ts w2 = (Inl e, w')
      | Inr x \<Rightarrow> x = ret \<and> register_texture E (meshes r1) (unat ret) td ts w2 = (Inr (), w'))"
  using assms
  by (auto simp: renderer_register_mesh_def and_then_Inl and_then_Inr read_this_Inl read_this_Inr
      new_mesh_not_114 register_geometry_not_114 Let_def split: if_splits)

lemma renderer_render_draws:
  assumes "renderer_render this w = (Inr u, w')" and "get_renderer w this = Some r"
  shows "filter is_draw (drop (length (gpu_log w)) (gpu_log w')) =
     map (\<lambda>i. C3D_DrawArrays GPU_TRIANGLES 0 (vertex_count (requested_mesh w r i)) (ctx_buf_info w))
       [0..<unat (n_requests r)]"
proof -
  have "gpu_log w' = gpu_log w @ concat (map (request_calls w r) [0..<unat (n_requests r)])"
    using renderer_render_Inr [OF assms] by simp
  then show ?thesis
    by (simp add: filter_concat_map request_calls_def filter_draw_calls concat_map_singleton)
qed

lemma write_request_Inr:
  "write_request p i f w = (Inr u, w') \<longleftrightarrow>
     (\<exists>n rs. deref w p = Some (RequestBlock n rs) \<and> i < length rs \<and>
        w' = w\<lparr>store := (store w)(p \<mapsto> RequestBlock n (rs[i := f (rs ! i)]))\<rparr>)"
  by (auto simp: write_request_def split: option.splits block.splits)

lemma write_request_effect:
  assumes "write_request p i f w = (Inr u, w')"
  shows "\<exists>n rs. deref w p = Some (RequestBlock n rs) \<and> i < length rs \<and>
     deref w' = (deref w)(p \<mapsto> RequestBlock n (rs[i := f (rs ! i)]))"
    and "brk w' = brk w" and "heap_free w' = heap_free w" and "linear_free w' = linear_free w"
    and "gpu_log w' = gpu_log w" and "ctx_buf_info w' = ctx_buf_info w" and "console w' = console w"
  using assms by (auto simp: write_request_Inr deref_store_upd)

text \<open>The queue-growth step of renderer_request, when it returns.\<close>

lemma request_growth_Inr:
  assumes grow: "(if requests r = 0 then
          and_then (malloc (10 * sizeof_mesh E) (fresh_requests E (10 * sizeof_mesh E)) w)
            (\<lambda>p w.
          and_then (update_this this (\<lambda>r. r\<lparr>requests := p\<rparr>) w) (\<lambda>_ w.
          if p = 0 then panic 139 ''failed malloc'' w
          else update_this this (\<lambda>r. r\<lparr>capacity_requests := 10\<rparr>) w))
        else if n_requests r = capacity_requests r then
          (let newcap = (capacity_requests r * 3) div 2 in
           and_then (realloc E (requests r) (unat newcap) w) (\<lambda>p w.
           and_then (update_this this (\<lambda>r. r\<lparr>meshes := p\<rparr>) w) (\<lambda>_ w.
           and_then (read_this this w) (\<lambda>r w.
           if requests r = 0 then panic 145 ''failed realloc'' w
           else update_this this (\<lambda>r. r\<lparr>capacity_requests := newcap\<rparr>) w))))
        else (Inr (), w)) = (Inr (), w1)"
    and r: "get_renderer w this = Some r"
  shows "\<exists>r1. get_renderer w1 this = Some r1 \<and> n_requests r1 = n_requests r \<and>
      (if requests r = 0
       then requests r1 = Suc (brk w) \<and>
            deref w1 (requests r1) = Some (fresh_requests E (10 * sizeof_mesh E))
       else requests r1 = requests r \<and>
            (\<forall>n rs. deref w1 (requests r) = Some (RequestBlock n rs) \<longrightarrow>
               deref w (requests r) = Some (RequestBlock n rs)))"
    and "gpu_log w1 = gpu_log w" and "ctx_buf_info w1 = ctx_buf_info w"
proof -
  have this_le: "this \<le> brk w" and this_pos: "0 < this"
    using r by (simp_all add: get_renderer_Some)
  have "(\<exists>r1. get_renderer w1 this = Some r1 \<and> n_requests r1 = n_requests r \<and>
      (if requests r = 0
       then requests r1 = Suc (brk w) \<and>
            deref w1 (requests r1) = Some (fresh_requests E (10 * sizeof_mesh E))
       else requests r1 = requests r \<and>
            (\<forall>n rs. deref w1 (requests r) = Some (RequestBlock n rs) \<longrightarrow>
               deref w (requests r) = Some (RequestBlock n rs)))) \<and>
     gpu_log w1 = gpu_log w \<and> ctx_buf_info w1 = ctx_buf_info w"
  proof (cases "requests r = 0")
    case True
    with grow obtain p wa wb where
      a: "malloc (10 * sizeof_mesh E) (fresh_requests E (10 * sizeof_mesh E)) w = (Inr p, wa)" and
      b: "update_this this (\<lambda>r. r\<lparr>requests := p\<rparr>) wa = (Inr (), wb)" and
      c: "update_this this (\<lambda>r. r\<lparr>capacity_requests := 10\<rparr>) wb = (Inr (), w1)" and "p \<noteq> 0"
      by (auto simp: and_then_Inr split: if_splits)
    from malloc_effect(1) [OF a] \<open>p \<noteq> 0\<close> have
      da: "deref wa = (deref w)(p \<mapsto> fresh_requests E (10 * sizeof_mesh E))" and p: "p = Suc (brk w)"
      by auto
    have ra: "get_renderer wa this = Some r"
      using r this_le p by (simp add: get_renderer_deref da)
    from update_this_effect(1) [OF b] ra have
      db: "deref wb = (deref wa)(this \<mapsto> RendererBlock (r\<lparr>requests := p\<rparr>))"
      by auto
    then have rb: "get_renderer wb this = Some (r\<lparr>requests := p\<rparr>)"
      by (simp add: get_renderer_deref)
    from update_this_effect(1) [OF c] rb have
      d1: "deref w1 = (deref wb)(this \<mapsto> RendererBlock (r\<lparr>requests := p, capacity_requests := 10\<rparr>))"
      by auto
    have "get_renderer w1 this = Some (r\<lparr>requests := p, capacity_requests := 10\<rparr>)"
      by (simp add: get_renderer_deref d1)
    moreover have "deref w1 p = Some (fresh_requests E (10 * sizeof_mesh E))"
      using this_le p by (simp add: d1 db da)
    ultimately show ?thesis
      using True p malloc_effect(2,3) [OF a] update_this_effect(5,6) [OF b]
        update_this_effect(5,6) [OF c]
      by simp
  next
    case False
    show ?thesis
    proof (cases "n_requests r = capacity_requests r")
      case True
      with False grow obtain p wa wb r3 where
        a: "realloc E (requests r) (unat ((capacity_requests r * 3) div 2)) w = (Inr p, wa)" and
        b: "update_this this (\<lambda>r. r\<lparr>meshes := p\<rparr>) wa = (Inr (), wb)" and
        r3: "get_renderer wb this = Some r3" and
        c: "update_this this (\<lambda>x. x\<lparr>capacity_requests := (capacity_requests r * 3) div 2\<rparr>) wb
              = (Inr (), w1)"
        by (auto simp: and_then_Inr read_this_Inr Let_def split: if_splits)
      from update_this_effect(1) [OF b] obtain ra where ra: "get_renderer wa this = Some ra" and
        db: "deref wb = (deref wa)(this \<mapsto> RendererBlock (ra\<lparr>meshes := p\<rparr>))"
        by auto
      have rb: "get_renderer wb this = Some (ra\<lparr>meshes := p\<rparr>)"
        by (simp add: get_renderer_deref db)
      from update_this_effect(1) [OF c] rb have
        d1: "deref w1 = (deref wb)(this \<mapsto> RendererBlock
               (ra\<lparr>meshes := p, capacity_requests := (capacity_requests r * 3) div 2\<rparr>))"
        by auto
      from realloc_effect(1) [OF a] consider
        (failed) "p = 0" "wa = w" |
        (moved) b b' where "p = Suc (brk w)" "deref w (requests r) = Some b"
          "deref wa = (deref w)(requests r := None, p \<mapsto> b')"
        by auto
      then have "ra = r \<and> (\<forall>n rs. deref w1 (requests r) = Some (RequestBlock n rs) \<longrightarrow>
               deref w (requests r) = Some (RequestBlock n rs))"
      proof cases
        case failed
        then have "ra = r"
          using ra r by simp
        then show ?thesis
          using failed by (auto simp: d1 db split: if_splits)
      next
        case moved
        have req_le: "requests r \<le> brk w"
          using moved(2) by (simp add: deref_def split: if_splits)
        have ne: "requests r \<noteq> this"
          using ra this_le moved by (auto simp: get_renderer_deref split: if_splits)
        then have "ra = r"
          using ra r this_le moved by (simp add: get_renderer_deref)
        moreover have "deref w1 (requests r) = None"
          using ne moved(1,3) req_le by (simp add: d1 db)
        ultimately show ?thesis
          by simp
      qed
      moreover have "get_renderer w1 this = Some
               (ra\<lparr>meshes := p, capacity_requests := (capacity_requests r * 3) div 2\<rparr>)"
        by (simp add: get_renderer_deref d1)
      ultimately show ?thesis
        using False realloc_effect(2,3) [OF a] update_this_effect(5,6) [OF b]
          update_this_effect(5,6) [OF c]
        by simp
    next
      case neq: False
      with False grow have "w1 = w"
        by simp
      then show ?thesis
        using r False by simp
    qed
  qed
  then show "\<exists>r1. get_renderer w1 this = Some r1 \<and> n_requests r1 = n_requests r \<and>
      (if requests r = 0
       then requests r1 = Suc (brk w) \<and>
            deref w1 (requests r1) = Some (fresh_requests E (10 * sizeof_mesh E))
       else requests r1 = requests r \<and>
            (\<forall>n rs. deref w1 (requests r) = Some (RequestBlock n rs) \<longrightarrow>
               deref w (requests r) = Some (RequestBlock n rs)))"
    and "gpu_log w1 = gpu_log w" and "ctx_buf_info w1 = ctx_buf_info w"
    by blast+
qed

lemma request_overwrite:
  "(q::render_request)\<lparr>mesh_id := h, model := mm\<rparr> = \<lparr>mesh_id = h, model = mm\<rparr>"
  by (cases q) simp

lemma renderer_request_Inr:
  assumes req: "renderer_request E this h m w = (Inr u, w')" and r: "get_renderer w this = Some r"
  shows "\<exists>mm r'. m = Some mm \<and> get_renderer w' this = Some r' \<and>
      n_requests r' = n_requests r + 1 \<and> requests r' \<noteq> 0 \<and>
      unat (n_requests r) < length (request_array w' r') \<and>
      request_array w' r' ! unat (n_requests r) = \<lparr>mesh_id = h, model = mm\<rparr> \<and>
      (requests r \<noteq> 0 \<longrightarrow> requests r' = requests r \<and>
         request_array w' r' = (request_array w r)[unat (n_requests r) := \<lparr>mesh_id = h, model = mm\<rparr>])"
    and "gpu_log w' = gpu_log w" and "ctx_buf_info w' = ctx_buf_info w"
proof -
  from req r obtain w1 r1 w2 w3 mm where
    grow: "(if requests r = 0 then
          and_then (malloc (10 * sizeof_mesh E) (fresh_requests E (10 * sizeof_mesh E)) w)
            (\<lambda>p w.
          and_then (update_this this (\<lambda>r. r\<lparr>requests := p\<rparr>) w) (\<lambda>_ w.
          if p = 0 then panic 139 ''failed malloc'' w
          else update_this this (\<lambda>r. r\<lparr>capacity_requests := 10\<rparr>) w))
        else if n_requests r = capacity_requests r then
          (let newcap = (capacity_requests r * 3) div 2 in
           and_then (realloc E (requests r) (unat newcap) w) (\<lambda>p w.
           and_then (update_this this (\<lambda>r. r\<lparr>meshes := p\<rparr>) w) (\<lambda>_ w.
           and_then (read_this this w) (\<lambda>r w.
           if requests r = 0 then panic 145 ''failed realloc'' w
           else update_this this (\<lambda>r. r\<lparr>capacity_requests := newcap\<rparr>) w))))
        else (Inr (), w)) = (Inr (), w1)" and
    r1: "get_renderer w1 this = Some r1" and
    inc: "update_this this (\<lambda>r. r\<lparr>n_requests := n_requests r + 1\<rparr>) w1 = (Inr (), w2)" and
    wid: "write_request (requests r1) (unat (n_requests r1)) (\<lambda>q. q\<lparr>mesh_id := h\<rparr>) w2
            = (Inr (), w3)" and
    m: "m = Some mm" and
    wmo: "write_request (requests r1) (unat (n_requests r1)) (\<lambda>q. q\<lparr>model := mm\<rparr>) w3
            = (Inr u, w')"
    by (auto simp: renderer_request_def and_then_Inr read_this_Inr Let_def split: option.splits)
  from request_growth_Inr(1) [OF grow r] r1 have
    n1: "n_requests r1 = n_requests r" and
    old: "requests r \<noteq> 0 \<Longrightarrow> requests r1 = requests r \<and>
            (\<forall>n rs. deref w1 (requests r) = Some (RequestBlock n rs) \<longrightarrow>
               deref w (requests r) = Some (RequestBlock n rs))"
    by (auto split: if_splits)
  from update_this_effect(1) [OF inc] r1 have
    d2: "deref w2 = (deref w1)(this \<mapsto> RendererBlock (r1\<lparr>n_requests := n_requests r1 + 1\<rparr>))"
    by auto
  from write_request_effect(1) [OF wid] obtain n rs where
    b2: "deref w2 (requests r1) = Some (RequestBlock n rs)" and
    i: "unat (n_requests r1) < length rs" and
    d3: "deref w3 = (deref w2)(requests r1 \<mapsto> RequestBlock n
           (rs[unat (n_requests r1) := (rs ! unat (n_requests r1))\<lparr>mesh_id := h\<rparr>]))"
    by blast
  have ne: "requests r1 \<noteq> this"
    using b2 by (auto simp: d2)
  have nz: "requests r1 \<noteq> 0"
    using b2 by (auto simp: deref_def split: if_splits)
  have b1: "deref w1 (requests r1) = Some (RequestBlock n rs)"
    using b2 ne by (simp add: d2)
  from write_request_effect(1) [OF wmo] have
    d': "deref w' = (deref w3)(requests r1 \<mapsto> RequestBlock n
           (rs[unat (n_requests r1) := \<lparr>mesh_id = h, model = mm\<rparr>]))"
    using i by (auto simp: d3 request_overwrite)
  let ?r' = "r1\<lparr>n_requests := n_requests r1 + 1\<rparr>"
  have r': "get_renderer w' this = Some ?r'"
    using ne by (simp add: get_renderer_deref d' d3 d2)
  have arr: "request_array w' ?r' = rs[unat (n_requests r1) := \<lparr>mesh_id = h, model = mm\<rparr>]"
    by (simp add: request_array_def d')
  have prev: "requests r \<noteq> 0 \<longrightarrow> requests ?r' = requests r \<and> request_array w r = rs"
    using old b1 by (auto simp: request_array_def)
  show "\<exists>mm r'. m = Some mm \<and> get_renderer w' this = Some r' \<and>
      n_requests r' = n_requests r + 1 \<and> requests r' \<noteq> 0 \<and>
      unat (n_requests r) < length (request_array w' r') \<and>
      request_array w' r' ! unat (n_requests r) = \<lparr>mesh_id = h, model = mm\<rparr> \<and>
      (requests r \<noteq> 0 \<longrightarrow> requests r' = requests r \<and>
         request_array w' r' = (request_array w r)[unat (n_requests r) := \<lparr>mesh_id = h, model = mm\<rparr>])"
    using m r' arr prev i nz by (auto simp: n1)
  show "gpu_log w' = gpu_log w"
    using request_growth_Inr(2) [OF grow r] update_this_effect(5) [OF inc]
      write_request_effect(5) [OF wid] write_request_effect(5) [OF wmo]
    by simp
  show "ctx_buf_info w' = ctx_buf_info w"
    using request_growth_Inr(3) [OF grow r] update_this_effect(6) [OF inc]
      write_request_effect(6) [OF wid] write_request_effect(6) [OF wmo]
    by simp
qed

lemma unat_succ_nowrap: "unat (n::size_t) + 1 < 2 ^ 32 \<Longrightarrow> unat (n + 1) = Suc (unat n)"
  using unat_add_lem [of n 1] by simp

lemma enqueue_all_Inr:
  assumes "enqueue_all E this qs w = (Inr u, w')" and "get_renderer w this = Some r"
    and "unat (n_requests r) + length qs < 2 ^ 32"
  shows "\<exists>r'. get_renderer w' this = Some r' \<and>
      unat (n_requests r') = unat (n_requests r) + length qs \<and>
      (\<forall>j < length qs. unat (n_requests r) + j < length (request_array w' r') \<and>
         request_array w' r' ! (unat (n_requests r) + j)
           = \<lparr>mesh_id = fst (qs ! j), model = snd (qs ! j)\<rparr>) \<and>
      (qs \<noteq> [] \<longrightarrow> requests r' \<noteq> 0) \<and>
      (requests r \<noteq> 0 \<longrightarrow> requests r' = requests r \<and>
         length (request_array w' r') = length (request_array w r) \<and>
         (\<forall>i < unat (n_requests r). request_array w' r' ! i = request_array w r ! i)) \<and>
      gpu_log w' = gpu_log w \<and> ctx_buf_info w' = ctx_buf_info w"
  using assms
proof (induction qs arbitrary: w r)
  case Nil
  then show ?case
    by simp
next
  case (Cons q qs)
  obtain h m where q: "q = (h, m)"
    by (cases q)
  from Cons.prems(1) obtain w1 where
    first: "renderer_request E this h (Some m) w = (Inr (), w1)" and
    rest: "enqueue_all E this qs w1 = (Inr u, w')"
    by (auto simp: q and_then_Inr)
  note r = Cons.prems(2)
  from renderer_request_Inr [OF first r] obtain r1 where
    r1: "get_renderer w1 this = Some r1" and
    n1: "n_requests r1 = n_requests r + 1" and
    nz1: "requests r1 \<noteq> 0" and
    here: "unat (n_requests r) < length (request_array w1 r1)"
      "request_array w1 r1 ! unat (n_requests r) = \<lparr>mesh_id = h, model = m\<rparr>" and
    old1: "requests r \<noteq> 0 \<longrightarrow> requests r1 = requests r \<and>
         request_array w1 r1 = (request_array w r)[unat (n_requests r) := \<lparr>mesh_id = h, model = m\<rparr>]" and
    io1: "gpu_log w1 = gpu_log w" "ctx_buf_info w1 = ctx_buf_info w"
    by auto
  have u1: "unat (n_requests r1) = Suc (unat (n_requests r))"
    using Cons.prems(3) by (simp add: n1 unat_succ_nowrap)
  have bound: "unat (n_requests r1) + length qs < 2 ^ 32"
    using Cons.prems(3) by (simp add: u1)
  from Cons.IH [OF rest r1 bound] nz1 obtain r' where
    r': "get_renderer w' this = Some r'" and
    n': "unat (n_requests r') = unat (n_requests r1) + length qs" and
    new: "\<forall>j < length qs. unat (n_requests r1) + j < length (request_array w' r') \<and>
         request_array w' r' ! (unat (n_requests r1) + j)
           = \<lparr>mesh_id = fst (qs ! j), model = snd (qs ! j)\<rparr>" and
    keep: "requests r' = requests r1" "length (request_array w' r') = length (request_array w1 r1)"
      "\<forall>i < unat (n_requests r1). request_array w' r' ! i = request_array w1 r1 ! i" and
    io': "gpu_log w' = gpu_log w1" "ctx_buf_info w' = ctx_buf_info w1"
    by auto
  have entries: "\<forall>j < length (q # qs). unat (n_requests r) + j < length (request_array w' r') \<and>
         request_array w' r' ! (unat (n_requests r) + j)
           = \<lparr>mesh_id = fst ((q # qs) ! j), model = snd ((q # qs) ! j)\<rparr>"
  proof (intro allI impI)
    fix j assume j: "j < length (q # qs)"
    show "unat (n_requests r) + j < length (request_array w' r') \<and>
         request_array w' r' ! (unat (n_requests r) + j)
           = \<lparr>mesh_id = fst ((q # qs) ! j), model = snd ((q # qs) ! j)\<rparr>"
    proof (cases j)
      case 0
      then show ?thesis
        using here keep(2,3) by (simp add: u1 q)
    next
      case (Suc k)
      then show ?thesis
        using new j by (simp add: u1)
    qed
  qed
  have older: "requests r \<noteq> 0 \<longrightarrow> requests r' = requests r \<and>
         length (request_array w' r') = length (request_array w r) \<and>
         (\<forall>i < unat (n_requests r). request_array w' r' ! i = request_array w r ! i)"
    using old1 keep by (auto simp: u1)
  show ?case
    using r' n' entries older nz1 keep(1) io1 io' by (auto simp: u1)
qed

lemma length_resize_cells: "length (resize_cells k junk xs) = k"
  by (simp add: resize_cells_def)

lemma grown_capacity_bound:
  assumes "2 \<le> sz"
  shows "unat ((c::size_t) * 3 div 2) div sz \<le> unat c"
proof -
  have "unat (c * 3) \<le> unat c * 3"
    by (simp add: unat_word_ariths)
  then have "unat (c * 3 div 2) \<le> unat c * 3 div 2"
    by (simp add: unat_div div_le_mono)
  then have "unat (c * 3 div 2) div sz \<le> (unat c * 3 div 2) div sz"
    by (rule div_le_mono)
  also have "\<dots> \<le> (unat c * 3 div 2) div 2"
    using assms by (simp add: div_le_mono2)
  also have "\<dots> \<le> unat c"
    by simp
  finally show ?thesis .
qed

lemma new_mesh_full_Inr:
  assumes nm: "new_mesh E this w = (Inr ret, w1)" and r: "get_renderer w this = Some r"
    and full: "meshes r \<noteq> 0" "n_meshes r = capacity_meshes r"
    and r1: "get_renderer w1 this = Some r1"
  shows "\<exists>b b'. deref w (meshes r) = Some b \<and>
      resized E (unat (capacity_meshes r * 3 div 2)) b = Some b' \<and>
      meshes r1 = Suc (brk w) \<and> capacity_meshes r1 = capacity_meshes r * 3 div 2 \<and>
      deref w1 (meshes r1) = Some b' \<and> deref w1 (meshes r) = None"
proof -
  from nm r full obtain p wa wb wc where
    a: "realloc E (meshes r) (unat ((capacity_meshes r * 3) div 2)) w = (Inr p, wa)" and
    b: "update_this this (\<lambda>r. r\<lparr>meshes := p\<rparr>) wa = (Inr (), wb)" and
    c: "update_this this (\<lambda>x. x\<lparr>capacity_meshes := (capacity_meshes r * 3) div 2\<rparr>) wb = (Inr (), wc)"
    and "p \<noteq> 0" and
    inc: "update_this this (\<lambda>r. r\<lparr>n_meshes := n_meshes r + 1\<rparr>) wc = (Inr (), w1)"
    by (auto simp: new_mesh_def and_then_Inr read_this_Inr Let_def split: if_splits)
  have this_le: "this \<le> brk w"
    using r by (simp add: get_renderer_Some)
  from realloc_effect(1) [OF a] \<open>p \<noteq> 0\<close> obtain b0 b' where
    b0: "deref w (meshes r) = Some b0" and
    res: "resized E (unat (capacity_meshes r * 3 div 2)) b0 = Some b'" and
    da: "deref wa = (deref w)(meshes r := None, p \<mapsto> b')" and p: "p = Suc (brk w)"
    by auto
  have m_le: "meshes r \<le> brk w"
    using b0 by (simp add: deref_def split: if_splits)
  from update_this_effect(1) [OF b] obtain ra where ra: "get_renderer wa this = Some ra" and
    db: "deref wb = (deref wa)(this \<mapsto> RendererBlock (ra\<lparr>meshes := p\<rparr>))"
    by auto
  have ne: "meshes r \<noteq> this"
    using ra this_le p by (auto simp: get_renderer_deref da split: if_splits)
  then have "ra = r"
    using ra r this_le p by (simp add: get_renderer_deref da)
  have rb: "get_renderer wb this = Some (r\<lparr>meshes := p\<rparr>)"
    by (simp add: get_renderer_deref db \<open>ra = r\<close>)
  from update_this_effect(1) [OF c] rb have
    dc: "deref wc = (deref wb)(this \<mapsto> RendererBlock
           (r\<lparr>meshes := p, capacity_meshes := (capacity_meshes r * 3) div 2\<rparr>))"
    by auto
  then have rc: "get_renderer wc this
      = Some (r\<lparr>meshes := p, capacity_meshes := (capacity_meshes r * 3) div 2\<rparr>)"
    by (simp add: get_renderer_deref)
  from update_this_effect(1) [OF inc] rc have
    d1: "deref w1 = (deref wc)(this \<mapsto> RendererBlock
           (r\<lparr>meshes := p, capacity_meshes := (capacity_meshes r * 3) div 2,
              n_meshes := n_meshes r + 1\<rparr>))"
    by auto
  then have "r1 = r\<lparr>meshes := p, capacity_meshes := (capacity_meshes r * 3) div 2,
              n_meshes := n_meshes r + 1\<rparr>"
    using r1 by (simp add: get_renderer_deref)
  moreover have "deref w1 p = Some b'" "deref w1 (meshes r) = None"
    using this_le p ne m_le by (simp_all add: d1 dc db da \<open>ra = r\<close>)
  ultimately show ?thesis
    using b0 res p by simp
qed

lemma full_registry_never_registers:
  assumes r: "get_renderer w this = Some r"
    and full: "meshes r \<noteq> 0" "n_meshes r = capacity_meshes r"
    and sz: "2 \<le> sizeof_mesh E"
  shows "renderer_register_mesh E this vertices nv texture_data ts mat w \<noteq> (Inr h, w')"
proof
  assume reg: "renderer_register_mesh E this vertices nv texture_data ts mat w = (Inr h, w')"
  from register_reaches_texture [OF reg] obtain vs ret w1 r1 w2 where
    nm: "new_mesh E this w = (Inr ret, w1)" and r1: "get_renderer w1 this = Some r1" and
    geo: "register_geometry (meshes r1) (unat ret) vs nv mat w1 = (Inr (), w2)"
    by auto
  from slot_after_geometry(1,4) [OF r nm r1 geo] have
    slot: "unat (n_meshes r) < length (mesh_array w1 r1)"
    by auto
  from new_mesh_full_Inr [OF nm r full r1] obtain b b' where
    res: "resized E (unat (capacity_meshes r * 3 div 2)) b = Some b'" and
    d1: "deref w1 (meshes r1) = Some b'"
    by blast
  have "length (mesh_array w1 r1) \<le> unat (capacity_meshes r * 3 div 2) div sizeof_mesh E"
    using res by (auto simp: mesh_array_def d1 resized_def length_resize_cells split: block.splits)
  also have "\<dots> \<le> unat (capacity_meshes r)"
    by (rule grown_capacity_bound [OF sz])
  finally show False
    using slot full(2) by simp
qed

lemma renderer_init_keeps_storage:
  assumes "renderer_init E w = (Inr this, w')"
  shows "\<exists>r. get_renderer w' this = Some r \<and>
     meshes r = meshes (junk_renderer E) \<and> n_meshes r = n_meshes (junk_renderer E) \<and>
     capacity_meshes r = capacity_meshes (junk_renderer E) \<and>
     requests r = requests (junk_renderer E) \<and> n_requests r = n_requests (junk_renderer E) \<and>
     capacity_requests r = capacity_requests (junk_renderer E)"
  using assms
  by (auto simp: renderer_init_def and_then_Inr update_this_Inr read_this_Inr malloc_def Let_def
      get_renderer_def deref_def put_renderer_def gpu_def split: if_splits)

text \<open>When \<open>renderer_render\<close> returns and when it does not, and what it has done by then.\<close>

lemma render_request_at_Inl:
  assumes r: "get_renderer w this = Some r" and nb: "\<not> in_bounds w r (unat idx)"
  shows "\<exists>s. render_request_at this idx w = (Inl (Undefined s), w)"
proof (cases "unat idx < length (request_array w r)")
  case False
  then have "\<exists>s. read_request (requests r) (unat idx) w = (Inl (Undefined s), w)"
    by (auto simp: read_request_def request_array_def split: option.splits block.splits)
  then show ?thesis
    using r by (auto simp: render_request_at_def and_then_def read_this_def)
next
  case True
  then have q: "read_request (requests r) (unat idx) w = (Inr (request_array w r ! unat idx), w)"
    by (simp add: read_request_Inr)
  from True nb have "\<not> unat (mesh_id (request_array w r ! unat idx)) < length (mesh_array w r)"
    by (simp add: in_bounds_def)
  then have "\<exists>s. read_mesh (meshes r) (unat (mesh_id (request_array w r ! unat idx))) w
      = (Inl (Undefined s), w)"
    by (auto simp: read_mesh_def mesh_array_def split: option.splits block.splits)
  then show ?thesis
    using r q by (auto simp: render_request_at_def and_then_def read_this_def)
qed

lemma render_request_at_ok:
  assumes r: "get_renderer w this = Some r" and b: "in_bounds w r (unat idx)"
  shows "render_request_at this idx w
     = (Inr (), emit (debug_rows (requested_mesh w r (unat idx))) (request_calls w r (unat idx)) w)"
  using assms
  by (simp add: render_request_at_Inr in_bounds_def requested_mesh_def request_calls_def)

lemma takeWhile_all: "takeWhile P xs = xs \<longleftrightarrow> (\<forall>x \<in> set xs. P x)"
  by (induction xs) auto

text \<open>The loop from idx: what it gets through, and how it ends.\<close>

lemma render_loop_snd:
  assumes r: "get_renderer w this = Some r"
  shows "snd (render_loop this idx w)
       = emit (concat (map (\<lambda>i. debug_rows (requested_mesh w r i))
                  (takeWhile (in_bounds w r) [unat idx..<unat (n_requests r)])))
              (concat (map (request_calls w r)
                  (takeWhile (in_bounds w r) [unat idx..<unat (n_requests r)]))) w"
  using r
proof (induction this idx w rule: render_loop.induct)
  case (1 this idx w)
  note r = \<open>get_renderer w this = Some r\<close>
  show ?case
  proof (cases "idx < n_requests r")
    case False
    then have ge: "unat (n_requests r) \<le> unat idx"
      by (simp add: word_less_nat_alt)
    have "render_loop this idx w = (Inr (), w)"
      using r False by (simp add: render_loop.simps)
    then show ?thesis
      using ge by (simp add: emit_nil)
  next
    case True
    then have lt: "unat idx < unat (n_requests r)"
      by (simp add: word_less_nat_alt)
    have suc: "unat (idx + 1) = Suc (unat idx)"
      by (rule unat_succ_less [OF True])
    have upt: "[unat idx..<unat (n_requests r)] = unat idx # [Suc (unat idx)..<unat (n_requests r)]"
      using lt by (simp add: upt_conv_Cons)
    have unf: "render_loop this idx w =
        (case render_request_at this idx w of
           (Inl e, w') \<Rightarrow> (Inl e, w') | (Inr u, w') \<Rightarrow> render_loop this (idx + 1) w')"
      using r True by (simp add: render_loop.simps)
    show ?thesis
    proof (cases "in_bounds w r (unat idx)")
      case False
      from render_request_at_Inl [OF r False] obtain s where
        "render_request_at this idx w = (Inl (Undefined s), w)"
        by blast
      then have "render_loop this idx w = (Inl (Undefined s), w)"
        by (simp add: unf)
      then show ?thesis
        using False by (simp add: upt emit_nil)
    next
      case here: True
      let ?w1 = "emit (debug_rows (requested_mesh w r (unat idx))) (request_calls w r (unat idx)) w"
      have step: "render_request_at this idx w = (Inr (), ?w1)"
        by (rule render_request_at_ok [OF r here])
      have r1: "get_renderer ?w1 this = Some r"
        using r by simp
      have loop: "render_loop this idx w = render_loop this (idx + 1) ?w1"
        by (simp add: unf step)
      have IH: "snd (render_loop this (idx + 1) ?w1)
         = emit (concat (map (\<lambda>i. debug_rows (requested_mesh w r i))
                  (takeWhile (in_bounds w r) [Suc (unat idx)..<unat (n_requests r)])))
              (concat (map (request_calls w r)
                  (takeWhile (in_bounds w r) [Suc (unat idx)..<unat (n_requests r)]))) ?w1"
        using "1.IH" [OF r True step [symmetric] refl r1] by (simp add: suc)
      have tw: "takeWhile (in_bounds w r) [unat idx..<unat (n_requests r)]
          = unat idx # takeWhile (in_bounds w r) [Suc (unat idx)..<unat (n_requests r)]"
        using here by (simp add: upt)
      show ?thesis
        unfolding loop IH tw by (simp add: emit_emit)
    qed
  qed
qed

lemma render_loop_fst:
  assumes r: "get_renderer w this = Some r"
  shows "if \<forall>i. unat idx \<le> i \<and> i < unat (n_requests r) \<longrightarrow> in_bounds w r i
      then fst (render_loop this idx w) = Inr ()
      else \<exists>s. fst (render_loop this idx w) = Inl (Undefined s)"
  using r
proof (induction this idx w rule: render_loop.induct)
  case (1 this idx w)
  note r = \<open>get_renderer w this = Some r\<close>
  show ?case
  proof (cases "idx < n_requests r")
    case False
    then have ge: "unat (n_requests r) \<le> unat idx"
      by (simp add: word_less_nat_alt)
    have "render_loop this idx w = (Inr (), w)"
      using r False by (simp add: render_loop.simps)
    then show ?thesis
      using ge by auto
  next
    case True
    then have lt: "unat idx < unat (n_requests r)"
      by (simp add: word_less_nat_alt)
    have suc: "unat (idx + 1) = Suc (unat idx)"
      by (rule unat_succ_less [OF True])
    have unf: "render_loop this idx w =
        (case render_request_at this idx w of
           (Inl e, w') \<Rightarrow> (Inl e, w') | (Inr u, w') \<Rightarrow> render_loop this (idx + 1) w')"
      using r True by (simp add: render_loop.simps)
    show ?thesis
    proof (cases "in_bounds w r (unat idx)")
      case False
      from render_request_at_Inl [OF r False] obtain s where
        "render_request_at this idx w = (Inl (Undefined s), w)"
        by blast
      then have "render_loop this idx w = (Inl (Undefined s), w)"
        by (simp add: unf)
      moreover have "\<not> (\<forall>i. unat idx \<le> i \<and> i < unat (n_requests r) \<longrightarrow> in_bounds w r i)"
        using False lt by blast
      ultimately show ?thesis
        by simp
    next
      case here: True
      let ?w1 = "emit (debug_rows (requested_mesh w r (unat idx))) (request_calls w r (unat idx)) w"
      have step: "render_request_at this idx w = (Inr (), ?w1)"
        by (rule render_request_at_ok [OF r here])
      have r1: "get_renderer ?w1 this = Some r"
        using r by simp
      have loop: "render_loop this idx w = render_loop this (idx + 1) ?w1"
        by (simp add: unf step)
      have IH: "if \<forall>i. Suc (unat idx) \<le> i \<and> i < unat (n_requests r) \<longrightarrow> in_bounds w r i
          then fst (render_loop this (idx + 1) ?w1) = Inr ()
          else \<exists>s. fst (render_loop this (idx + 1) ?w1) = Inl (Undefined s)"
        using "1.IH" [OF r True step [symmetric] refl r1] by (simp add: suc)
      have all: "(\<forall>i. unat idx \<le> i \<and> i < unat (n_requests r) \<longrightarrow> in_bounds w r i)
          \<longleftrightarrow> (\<forall>i. Suc (unat idx) \<le> i \<and> i < unat (n_requests r) \<longrightarrow> in_bounds w r i)"
      proof
        assume "\<forall>i. unat idx \<le> i \<and> i < unat (n_requests r) \<longrightarrow> in_bounds w r i"
        then show "\<forall>i. Suc (unat idx) \<le> i \<and> i < unat (n_requests r) \<longrightarrow> in_bounds w r i"
          by simp
      next
        assume B: "\<forall>i. Suc (unat idx) \<le> i \<and> i < unat (n_requests r) \<longrightarrow> in_bounds w r i"
        show "\<forall>i. unat idx \<le> i \<and> i < unat (n_requests r) \<longrightarrow> in_bounds w r i"
        proof (intro allI impI)
          fix i assume i: "unat idx \<le> i \<and> i < unat (n_requests r)"
          then consider "i = unat idx" | "Suc (unat idx) \<le> i"
            by linarith
          then show "in_bounds w r i"
            using here B i by cases blast+
        qed
      qed
      show ?thesis
        unfolding loop all using IH .
    qed
  qed
qed

lemma renderer_render_returns:
  assumes r: "get_renderer w this = Some r"
    and b: "\<forall>i < unat (n_requests r). in_bounds w r i"
  shows "renderer_render this w =
     (Inr (), put_renderer this (r\<lparr>n_requests := 0\<rparr>)
        (emit (concat (map (\<lambda>i. debug_rows (requested_mesh w r i)) [0..<unat (n_requests r)]))
           (concat (map (request_calls w r) [0..<unat (n_requests r)])) w))"
proof -
  let ?w1 = "emit (concat (map (\<lambda>i. debug_rows (requested_mesh w r i)) [0..<unat (n_requests r)]))
                 (concat (map (request_calls w r) [0..<unat (n_requests r)])) w"
  have pos: "this \<noteq> 0"
    using r by (simp add: get_renderer_Some)
  have tw: "takeWhile (in_bounds w r) [0..<unat (n_requests r)] = [0..<unat (n_requests r)]"
    using b by (simp add: takeWhile_all)
  have "fst (render_loop this 0 w) = Inr ()"
    using render_loop_fst [OF r, of 0] b by simp
  moreover have "snd (render_loop this 0 w) = ?w1"
    using render_loop_snd [OF r, of 0] by (simp add: tw)
  ultimately have loop: "render_loop this 0 w = (Inr (), ?w1)"
    by (simp add: prod_eq_iff)
  have r1: "get_renderer ?w1 this = Some r"
    using r by simp
  show ?thesis
    using pos by (simp add: renderer_render_def and_then_def loop update_this_def r)
qed

lemma renderer_render_faults:
  assumes r: "get_renderer w this = Some r"
    and b: "\<not> (\<forall>i < unat (n_requests r). in_bounds w r i)"
  shows "\<exists>s. renderer_render this w =
     (Inl (Undefined s),
      emit (concat (map (\<lambda>i. debug_rows (requested_mesh w r i)) (processed w r)))
           (concat (map (request_calls w r) (processed w r))) w)"
proof -
  have pos: "this \<noteq> 0"
    using r by (simp add: get_renderer_Some)
  from render_loop_fst [OF r, of 0] b obtain s where
    "fst (render_loop this 0 w) = Inl (Undefined s)"
    by auto
  moreover note render_loop_snd [OF r, of 0]
  ultimately have "render_loop this 0 w = (Inl (Undefined s),
      emit (concat (map (\<lambda>i. debug_rows (requested_mesh w r i)) (processed w r)))
           (concat (map (request_calls w r) (processed w r))) w)"
    by (simp add: prod_eq_iff processed_def)
  then show ?thesis
    using pos by (simp add: renderer_render_def and_then_def)
qed

lemma renderer_render_outcome:
  assumes r: "get_renderer w this = Some r" and rend: "renderer_render this w = (out, w')"
  shows "gpu_log w' = gpu_log w @ concat (map (request_calls w r) (processed w r))"
    and "ctx_buf_info w' = ctx_buf_info w"
    and "out = Inr () \<longleftrightarrow> list_all (in_bounds w r) [0..<unat (n_requests r)]"
proof -
  have "gpu_log w' = gpu_log w @ concat (map (request_calls w r) (processed w r)) \<and>
      ctx_buf_info w' = ctx_buf_info w \<and>
      (out = Inr () \<longleftrightarrow> list_all (in_bounds w r) [0..<unat (n_requests r)])"
  proof (cases "\<forall>i < unat (n_requests r). in_bounds w r i")
    case True
    then have all: "processed w r = [0..<unat (n_requests r)]"
      by (simp add: processed_def takeWhile_all)
    from True have "list_all (in_bounds w r) [0..<unat (n_requests r)]"
      by (simp add: list_all_iff)
    then show ?thesis
      using renderer_render_returns [OF r True] rend by (simp add: all emit_def)
  next
    case False
    then have "\<not> list_all (in_bounds w r) [0..<unat (n_requests r)]"
      by (auto simp: list_all_iff)
    then show ?thesis
      using renderer_render_faults [OF r False] rend by (auto simp: emit_def)
  qed
  then show "gpu_log w' = gpu_log w @ concat (map (request_calls w r) (processed w r))"
    and "ctx_buf_info w' = ctx_buf_info w"
    and "out = Inr () \<longleftrightarrow> list_all (in_bounds w r) [0..<unat (n_requests r)]"
    by simp_all
qed

lemma filter_bind_calls: "filter is_buffer_bind (draw_calls r q m bufs) = []"
  by (simp add: draw_calls_def)

lemma register_descriptor:
  assumes reg: "renderer_register_mesh E this vertices nv texture_data ts mat w0 = (Inr h, w1)"
    and r0: "get_renderer w0 this = Some r0"
  shows "\<exists>r1. get_renderer w1 this = Some r1 \<and>
     ctx_buf_info w1 = [\<lparr>buf_data = vbo_data (mesh_array w1 r1 ! unat h),
             buf_stride = sizeof_vertex, buf_attrib_count = 3, buf_permutation = 0x210\<rparr>] \<and>
     buf_info (mesh_array w1 r1 ! unat h) = C3D_GetBufInfo E"
proof -
  from register_reaches_texture [OF reg] obtain vs td ret wa ra wb where
    nm: "new_mesh E this w0 = (Inr ret, wa)" and ra: "get_renderer wa this = Some ra" and
    geo: "register_geometry (meshes ra) (unat ret) vs nv mat wa = (Inr (), wb)" and
    tex: "register_texture E (meshes ra) (unat ret) td ts wb = (Inr (), w1)" and h: "h = ret"
    by auto
  note slot = slot_after_geometry [OF r0 nm ra geo]
  from slot(4) obtain n ms where
    i: "unat ret < length ms" and
    db: "deref wb (meshes ra) = Some (MeshBlock n (ms[unat ret := (ms ! unat ret)\<lparr>material := mat,
              vbo_data := Suc (brk wa), vertex_count := nv\<rparr>]))"
    by blast
  from register_texture_Inr(1) [OF tex] db i obtain t where
    d1: "deref w1 = (deref wb)(meshes ra \<mapsto> MeshBlock n
           ((ms[unat ret := (ms ! unat ret)\<lparr>material := mat,
              vbo_data := Suc (brk wa), vertex_count := nv\<rparr>])[unat ret :=
             ((ms[unat ret := (ms ! unat ret)\<lparr>material := mat,
              vbo_data := Suc (brk wa), vertex_count := nv\<rparr>]) ! unat ret)\<lparr>
                 texture := t\<lparr>mag_filter := GPU_LINEAR, min_filter := GPU_NEAREST\<rparr>,
                 buf_info := C3D_GetBufInfo E\<rparr>]))" and
    c1: "ctx_buf_info w1 = [\<lparr>buf_data = Suc (brk wa), buf_stride = sizeof_vertex,
              buf_attrib_count = 3, buf_permutation = 0x210\<rparr>]"
    by auto
  have "meshes ra \<noteq> this"
    using slot(3) db by (auto simp: get_renderer_deref)
  then have r1: "get_renderer w1 this = Some ra"
    using slot(3) by (simp add: get_renderer_deref d1)
  have "vbo_data (mesh_array w1 ra ! unat h) = Suc (brk wa)"
    "buf_info (mesh_array w1 ra ! unat h) = C3D_GetBufInfo E"
    using i by (simp_all add: mesh_array_def d1 h)
  with r1 c1 show ?thesis
    by simp
qed

text \<open>When a registration returns.\<close>

lemma write_mesh_returns:
  "deref w p = Some (MeshBlock n ms) \<Longrightarrow> i < length ms \<Longrightarrow>
     \<exists>w'. write_mesh p i f w = (Inr (), w')"
  by (simp add: write_mesh_def)

lemma read_mesh_returns:
  "deref w p = Some (MeshBlock n ms) \<Longrightarrow> i < length ms \<Longrightarrow>
     read_mesh p i w = (Inr (ms ! i), w)"
  by (simp add: read_mesh_def)

lemma linearAlloc_returns:
  "n \<le> linear_free w \<Longrightarrow> \<exists>w'. linearAlloc n w = (Inr (Suc (brk w)), w')"
  by (simp add: linearAlloc_def)

lemma memcpy_vertices_returns:
  "deref w dst = Some (VertexBlock cap vs0) \<Longrightarrow> n \<le> cap \<Longrightarrow>
     n \<le> sizeof_vertex * length src \<Longrightarrow> \<exists>w'. memcpy_vertices dst src n w = (Inr (), w')"
  by (simp add: memcpy_vertices_def)

lemma register_geometry_returns:
  assumes d: "deref w mesh = Some (MeshBlock n ms)" and i: "i < length ms"
    and lin: "unat (word_of_nat sizeof_vertex * nv :: size_t) \<le> linear_free w"
    and src: "unat (word_of_nat sizeof_vertex * nv :: size_t) \<le> sizeof_vertex * length vs"
  shows "\<exists>w'. register_geometry mesh i vs nv mat w = (Inr (), w')"
proof -
  let ?size = "unat (word_of_nat sizeof_vertex * nv :: size_t)"
  have mesh_le: "mesh \<le> brk w"
    using d by (simp add: deref_def split: if_splits)
  from write_mesh_returns [OF d i] obtain w1 where
    s1: "write_mesh mesh i (\<lambda>m. m\<lparr>material := mat\<rparr>) w = (Inr (), w1)"
    by blast
  from write_mesh_effect [OF s1] d have
    d1: "deref w1 = (deref w)(mesh \<mapsto> MeshBlock n (ms[i := (ms ! i)\<lparr>material := mat\<rparr>]))" and
    b1: "brk w1 = brk w" and l1: "linear_free w1 = linear_free w"
    by auto
  from linearAlloc_returns [of ?size w1] lin l1 obtain w2 where
    s2: "linearAlloc ?size w1 = (Inr (Suc (brk w)), w2)"
    by (auto simp: b1)
  from linearAlloc_effect(1) [OF s2] have
    d2: "deref w2 = (deref w1)(Suc (brk w) \<mapsto> VertexBlock ?size [])" and b2: "brk w2 = Suc (brk w)"
    by (simp_all add: b1)
  have ne: "Suc (brk w) \<noteq> mesh"
    using mesh_le by simp
  have dm2: "deref w2 mesh = Some (MeshBlock n (ms[i := (ms ! i)\<lparr>material := mat\<rparr>]))"
    using ne by (simp add: d2 d1)
  from write_mesh_returns [OF dm2] i obtain w3 where
    s3: "write_mesh mesh i (\<lambda>m. m\<lparr>vbo_data := Suc (brk w)\<rparr>) w2 = (Inr (), w3)"
    by auto
  from write_mesh_effect(1) [OF s3] dm2 have
    d3: "deref w3 = (deref w2)(mesh \<mapsto> MeshBlock n
           (ms[i := (ms ! i)\<lparr>material := mat, vbo_data := Suc (brk w)\<rparr>]))"
    using i by auto
  have dv3: "deref w3 (Suc (brk w)) = Some (VertexBlock ?size [])"
    using ne by (simp add: d3 d2)
  from memcpy_vertices_returns [OF dv3 _ src] obtain w4 where
    s4: "memcpy_vertices (Suc (brk w)) vs ?size w3 = (Inr (), w4)"
    by auto
  from memcpy_vertices_effect(1) [OF s4] dv3 have
    d4: "deref w4 = (deref w3)(Suc (brk w) \<mapsto> VertexBlock ?size
           (take (?size div sizeof_vertex) vs))"
    by auto
  have dm4: "deref w4 mesh = Some (MeshBlock n
           (ms[i := (ms ! i)\<lparr>material := mat, vbo_data := Suc (brk w)\<rparr>]))"
    using ne by (simp add: d4 d3)
  from write_mesh_returns [OF dm4] i obtain w5 where
    s5: "write_mesh mesh i (\<lambda>m. m\<lparr>vertex_count := nv\<rparr>) w4 = (Inr (), w5)"
    by auto
  from write_mesh_effect(1) [OF s5] dm4 have
    dm5: "deref w5 mesh = Some (MeshBlock n
           (ms[i := (ms ! i)\<lparr>material := mat, vbo_data := Suc (brk w), vertex_count := nv\<rparr>]))"
    using i by auto
  from read_mesh_returns [OF dm5] i have
    s6: "read_mesh mesh i w5
      = (Inr ((ms ! i)\<lparr>material := mat, vbo_data := Suc (brk w), vertex_count := nv\<rparr>), w5)"
    by simp
  show ?thesis
    by (simp add: register_geometry_def and_then_def Let_def s1 s2 s3 s4 s5 s6)
qed

lemma register_texture_returns:
  assumes d: "deref w mesh = Some (MeshBlock n ms)" and i: "i < length ms"
    and len: "unat ts \<le> length td"
    and imp: "Tex3DS_TextureImport E (take (unat ts) td) = Some t"
  shows "\<exists>w'. register_texture E mesh i td ts w = (Inr (), w')"
proof -
  from write_mesh_returns [OF d i] obtain w1 where
    s1: "write_mesh mesh i (\<lambda>m. m\<lparr>texture := t\<rparr>) w = (Inr (), w1)"
    by blast
  from write_mesh_effect(1) [OF s1] d have
    d1: "deref w1 mesh = Some (MeshBlock n (ms[i := (ms ! i)\<lparr>texture := t\<rparr>]))"
    by auto
  from write_mesh_returns [OF d1] i obtain w2 where
    s2: "write_mesh mesh i (\<lambda>m. m\<lparr>texture :=
           (texture m)\<lparr>mag_filter := GPU_LINEAR, min_filter := GPU_NEAREST\<rparr>\<rparr>) w1 = (Inr (), w2)"
    by auto
  from write_mesh_effect(1) [OF s2] d1 obtain ms2 where
    d2: "deref w2 mesh = Some (MeshBlock n ms2)" and l2: "length ms2 = length ms"
    by auto
  from read_mesh_returns [OF d2] i l2 have
    s3: "read_mesh mesh i w2 = (Inr (ms2 ! i), w2)"
    by simp
  let ?w3 = "printf (PrintTexture (tex_data (texture (ms2 ! i)))) w2"
  have d3: "deref ?w3 mesh = Some (MeshBlock n ms2)"
    using d2 by simp
  from write_mesh_returns [OF d3] i l2 obtain w4 where
    s4: "write_mesh mesh i (\<lambda>m. m\<lparr>buf_info := C3D_GetBufInfo E\<rparr>) ?w3 = (Inr (), w4)"
    by auto
  from write_mesh_effect(1) [OF s4] d3 obtain ms4 where
    d4: "deref w4 mesh = Some (MeshBlock n ms4)" and l4: "length ms4 = length ms"
    using l2 by auto
  from read_mesh_returns [OF d4] i l4 have
    s5: "read_mesh mesh i w4 = (Inr (ms4 ! i), w4)"
    by simp
  show ?thesis
    using len by (simp add: register_texture_def and_then_def Let_def imp s1 s2 s3 s4 s5)
qed

lemma put_renderer_twice:
  "put_renderer this a (put_renderer this b w) = put_renderer this a w"
  by (simp add: put_renderer_def)

lemma new_mesh_plain:
  assumes r: "get_renderer w this = Some r"
    and "meshes r \<noteq> 0" and "n_meshes r \<noteq> capacity_meshes r"
  shows "new_mesh E this w = (Inr (n_meshes r), put_renderer this (r\<lparr>n_meshes := n_meshes r + 1\<rparr>) w)"
proof -
  have pos: "this \<noteq> 0"
    using r by (simp add: get_renderer_Some)
  show ?thesis
    using assms pos
    by (simp add: new_mesh_def and_then_def read_this_def update_this_def get_renderer_put)
qed

lemma new_mesh_first:
  assumes r: "get_renderer w this = Some r"
    and "meshes r = 0" and heap: "10 * sizeof_mesh E \<le> heap_free w"
  shows "\<exists>w'. new_mesh E this w = (Inr (n_meshes r), w') \<and>
     get_renderer w' this = Some (r\<lparr>meshes := Suc (brk w), capacity_meshes := 10,
                                      n_meshes := n_meshes r + 1\<rparr>) \<and>
     deref w' (Suc (brk w)) = Some (fresh_meshes E (10 * sizeof_mesh E)) \<and>
     linear_free w' = linear_free w"
proof -
  have pos: "this \<noteq> 0" and le: "this \<le> brk w"
    using r by (simp_all add: get_renderer_Some)
  let ?wa = "w\<lparr>store := (store w)(Suc (brk w) \<mapsto> fresh_meshes E (10 * sizeof_mesh E)),
              brk := Suc (brk w), heap_free := heap_free w - 10 * sizeof_mesh E\<rparr>"
  have a: "malloc (10 * sizeof_mesh E) (fresh_meshes E (10 * sizeof_mesh E)) w
      = (Inr (Suc (brk w)), ?wa)"
    using heap by (simp add: malloc_def)
  have ra: "get_renderer ?wa this = Some r"
    using r pos le by (auto simp: get_renderer_def deref_def split: if_splits)
  have da: "deref ?wa (Suc (brk w)) = Some (fresh_meshes E (10 * sizeof_mesh E))"
    by (simp add: deref_def)
  let ?w' = "put_renderer this (r\<lparr>meshes := Suc (brk w), capacity_meshes := 10,
                                      n_meshes := n_meshes r + 1\<rparr>) ?wa"
  have "new_mesh E this w = (Inr (n_meshes r), ?w')"
    using assms(2) pos r
    by (simp add: new_mesh_def and_then_def read_this_def update_this_def a ra get_renderer_put
        put_renderer_twice)
  moreover have "get_renderer ?w' this = Some (r\<lparr>meshes := Suc (brk w), capacity_meshes := 10,
                                      n_meshes := n_meshes r + 1\<rparr>)"
    using ra by (simp add: get_renderer_put)
  moreover have "deref ?w' (Suc (brk w)) = Some (fresh_meshes E (10 * sizeof_mesh E))"
    using le da by (simp add: deref_put_renderer)
  moreover have "linear_free ?w' = linear_free w"
    by simp
  ultimately show ?thesis
    by blast
qed

lemma register_returns:
  assumes r: "get_renderer w this = Some r" and can: "can_register E w r vs nv td ts"
  shows "\<exists>w'. renderer_register_mesh E this (Some vs) nv (Some td) ts mat w
           = (Inr (n_meshes r), w')"
proof -
  have pos: "this \<noteq> 0"
    using r by (simp add: get_renderer_Some)
  from can have nv: "nv \<noteq> 0" and ts: "ts \<noteq> 0"
    and lin: "unat (word_of_nat sizeof_vertex * nv :: size_t) \<le> linear_free w"
    and src: "unat (word_of_nat sizeof_vertex * nv :: size_t) \<le> sizeof_vertex * length vs"
    and len: "unat ts \<le> length td"
    by (simp_all add: can_register_def)
  from can obtain t where imp: "Tex3DS_TextureImport E (take (unat ts) td) = Some t"
    by (auto simp: can_register_def)
  have "\<exists>w1 r1 n ms. new_mesh E this w = (Inr (n_meshes r), w1) \<and>
      get_renderer w1 this = Some r1 \<and> deref w1 (meshes r1) = Some (MeshBlock n ms) \<and>
      unat (n_meshes r) < length ms \<and> linear_free w1 = linear_free w"
  proof (cases "meshes r = 0")
    case True
    with can have heap: "10 * sizeof_mesh E \<le> heap_free w"
      and slot: "unat (n_meshes r) < 10 * sizeof_mesh E div sizeof_mesh E"
      by (simp_all add: can_register_def)
    from new_mesh_first [OF r True heap] show ?thesis
      using slot by (auto simp: fresh_meshes_def)
  next
    case False
    with can have room: "n_meshes r \<noteq> capacity_meshes r"
      and slot: "unat (n_meshes r) < length (mesh_array w r)"
      by (simp_all add: can_register_def)
    from slot obtain n ms where d: "deref w (meshes r) = Some (MeshBlock n ms)"
      and i: "unat (n_meshes r) < length ms"
      by (auto simp: mesh_array_def split: option.splits block.splits)
    have ne: "meshes r \<noteq> this"
      using r d by (auto simp: get_renderer_deref)
    let ?w1 = "put_renderer this (r\<lparr>n_meshes := n_meshes r + 1\<rparr>) w"
    have "new_mesh E this w = (Inr (n_meshes r), ?w1)"
      by (rule new_mesh_plain [OF r False room])
    moreover have "get_renderer ?w1 this = Some (r\<lparr>n_meshes := n_meshes r + 1\<rparr>)"
      using r by (simp add: get_renderer_put)
    moreover have "deref ?w1 (meshes r) = Some (MeshBlock n ms)"
      using d ne by (simp add: deref_put_renderer)
    ultimately show ?thesis
      using i by auto
  qed
  then obtain w1 r1 n ms where
    nm: "new_mesh E this w = (Inr (n_meshes r), w1)" and
    r1: "get_renderer w1 this = Some r1" and
    d1: "deref w1 (meshes r1) = Some (MeshBlock n ms)" and
    i: "unat (n_meshes r) < length ms" and l1: "linear_free w1 = linear_free w"
    by blast
  from register_geometry_returns [where nv = nv and mat = mat and vs = vs, OF d1 i] lin l1 obtain w2 where
    geo: "register_geometry (meshes r1) (unat (n_meshes r)) vs nv mat w1 = (Inr (), w2)"
    using src by auto
  from slot_after_geometry(4) [OF r nm r1 geo] obtain n2 ms2 where
    d2: "deref w2 (meshes r1) = Some (MeshBlock n2 ms2)" and l2: "length ms2 = length (mesh_array w1 r1)"
    by auto
  have "length (mesh_array w1 r1) = length ms"
    by (simp add: mesh_array_def d1)
  then have i2: "unat (n_meshes r) < length ms2"
    using i l2 by simp
  from register_texture_returns [OF d2 i2 len imp] obtain w' where
    tex: "register_texture E (meshes r1) (unat (n_meshes r)) td ts w2 = (Inr (), w')"
    by blast
  have "renderer_register_mesh E this (Some vs) nv (Some td) ts mat w = (Inr (n_meshes r), w')"
    using pos nv ts
    by (simp add: renderer_register_mesh_def and_then_def nm read_this_def r1 Let_def geo tex)
  then show ?thesis
    by blast
qed

section \<open>Running the functions on the concrete machine\<close>

lemmas prims = and_then_def read_this_def update_this_def get_renderer_def put_renderer_def
  deref_def read_mesh_def write_mesh_def read_request_def write_request_def malloc_def
  linearAlloc_def realloc_def resized_def resize_cells_def block_size_def memcpy_vertices_def
  printf_def gpu_def panic_def fresh_meshes_def fresh_requests_def BufInfo_Init_def BufInfo_Add_def
  sizeof_vertex_def Let_def

lemmas fixtures = test_env_def boot_def zero_renderer_def zero_mesh_def zero_request_def
  zero_material_def red_material_def zero_tex_def zero_vec_def zero_mtx_def identity_mtx_def
  shift_mtx_def test_import_def test_uniform_def triangle_def ready_renderer_def mesh_a_def
  mesh_b_def ready_world_def queued_renderer_def queued_world_def mesh_at_def busy_request_def
  init_renderer_def init_world_def stocked_def lined_def one_request_world_def
  grown_renderer_def grown_registry_def broken_renderer_def broken_queue_def

lemmas eval_ops = renderer_render_def render_loop.simps render_request_at_def
  renderer_register_mesh_def new_mesh_def register_geometry_def register_texture_def
  renderer_request_def renderer_init_def mtx_of_material_def

lemma render_queued: "renderer_render 1 queued_world = (Inr (), drawn_world)"
  by (simp add: eval_ops prims fixtures drawn_world_def fun_eq_iff)

lemma register_third: "renderer_register_mesh test_env 1 (Some triangle) 3 (Some [9]) 1 red_material
    queued_world = (Inr 2, third_world)"
  by (simp add: eval_ops prims fixtures third_world_def mesh_c_def fun_eq_iff)

lemma render_third: "renderer_render 1 third_world = (Inr (), third_drawn_world)"
  by (simp add: eval_ops prims fixtures third_world_def mesh_c_def third_drawn_world_def
      drawn_world_def fun_eq_iff)


lemma get_renderer_fixtures:
  "get_renderer ready_world 1 = Some ready_renderer"
  "get_renderer queued_world 1 = Some queued_renderer"
  "get_renderer third_world 1 = Some (queued_renderer\<lparr>n_meshes := 3\<rparr>)"
  by (simp_all add: get_renderer_def deref_def fixtures third_world_def)

lemma replicate_numeral_unfold: "replicate (numeral n) x = x # replicate (pred_numeral n) x"
  by (simp add: numeral_eq_Suc)

lemma run_init: "renderer_init test_env boot = (Inr 1, init_world)"
  by (simp add: eval_ops prims fixtures fun_eq_iff)

lemma run_register_first:
  "renderer_register_mesh test_env 1 (Some triangle) 3 (Some [1, 2]) 2 zero_material init_world
     = (Inr 0, stocked 1)"
  by (simp add: eval_ops prims fixtures fun_eq_iff replicate_numeral_unfold)

lemma run_register_next:
  "renderer_register_mesh test_env 1 (Some triangle) 3 (Some [1, 2]) 2 zero_material (stocked 1)
     = (Inr 1, stocked 2)"
  "renderer_register_mesh test_env 1 (Some triangle) 3 (Some [1, 2]) 2 zero_material (stocked 2)
     = (Inr 2, stocked 3)"
  "renderer_register_mesh test_env 1 (Some triangle) 3 (Some [1, 2]) 2 zero_material (stocked 3)
     = (Inr 3, stocked 4)"
  "renderer_register_mesh test_env 1 (Some triangle) 3 (Some [1, 2]) 2 zero_material (stocked 4)
     = (Inr 4, stocked 5)"
  "renderer_register_mesh test_env 1 (Some triangle) 3 (Some [1, 2]) 2 zero_material (stocked 5)
     = (Inr 5, stocked 6)"
  "renderer_register_mesh test_env 1 (Some triangle) 3 (Some [1, 2]) 2 zero_material (stocked 6)
     = (Inr 6, stocked 7)"
  "renderer_register_mesh test_env 1 (Some triangle) 3 (Some [1, 2]) 2 zero_material (stocked 7)
     = (Inr 7, stocked 8)"
  "renderer_register_mesh test_env 1 (Some triangle) 3 (Some [1, 2]) 2 zero_material (stocked 8)
     = (Inr 8, stocked 9)"
  "renderer_register_mesh test_env 1 (Some triangle) 3 (Some [1, 2]) 2 zero_material (stocked 9)
     = (Inr 9, stocked 10)"
  by (simp_all add: eval_ops prims fixtures fun_eq_iff replicate_numeral_unfold)

lemma run_register_eleventh:
  "renderer_register_mesh test_env 1 (Some triangle) 3 (Some [1, 2]) 2 zero_material (stocked 10)
     = (Inl (Undefined ''mesh index out of bounds''), grown_registry)"
  by (simp add: eval_ops prims fixtures fun_eq_iff replicate_numeral_unfold)

lemma run_new_mesh_full: "new_mesh test_env 1 (stocked 10) = (Inr 10, grown_registry)"
  by (simp add: eval_ops prims fixtures fun_eq_iff replicate_numeral_unfold)

lemma register_triangles_numeral:
  "register_triangles (numeral n) this w =
     and_then (register_triangles (pred_numeral n) this w) (\<lambda>hs w.
     and_then (renderer_register_mesh test_env this (Some triangle) 3 (Some [1, 2]) 2
                 zero_material w) (\<lambda>h w.
     (Inr (hs @ [h]), w)))"
  by (simp add: numeral_eq_Suc)

lemma register_triangles_1:
  "register_triangles 1 this w =
     and_then (renderer_register_mesh test_env this (Some triangle) 3 (Some [1, 2]) 2
                 zero_material w) (\<lambda>h w. (Inr [h], w))"
  by (simp add: and_then_def split: prod.splits sum.splits)

lemma run_ten_registrations:
  "register_triangles 10 1 init_world = (Inr [0, 1, 2, 3, 4, 5, 6, 7, 8, 9], stocked 10)"
  by (simp add: register_triangles_numeral register_triangles_1 and_then_def run_register_first
      run_register_next del: One_nat_def)

lemma run_eleven_registrations:
  "register_triangles 11 1 init_world
     = (Inl (Undefined ''mesh index out of bounds''), grown_registry)"
  by (simp add: register_triangles_numeral register_triangles_1 and_then_def run_register_first
      run_register_next run_register_eleventh del: One_nat_def)

lemma run_second_mesh:
  "renderer_register_mesh test_env 1 (Some (triangle @ triangle)) 6 (Some [7]) 1 red_material
     (stocked 1) = (Inr 1, ready_world)"
  by (simp add: eval_ops prims fixtures fun_eq_iff replicate_numeral_unfold)

lemma run_request_first:
  "renderer_request test_env 1 1 (Some identity_mtx) ready_world = (Inr (), one_request_world)"
  by (simp add: eval_ops prims fixtures fun_eq_iff replicate_numeral_unfold)

lemma run_request_second:
  "renderer_request test_env 1 0 (Some shift_mtx) one_request_world = (Inr (), queued_world)"
  by (simp add: eval_ops prims fixtures fun_eq_iff replicate_numeral_unfold)

lemma run_request_start:
  "renderer_request test_env 1 1 (Some identity_mtx) ready_world = (Inr (), lined 1)"
  by (simp add: eval_ops prims fixtures fun_eq_iff replicate_numeral_unfold)

lemma run_request_next:
  "renderer_request test_env 1 1 (Some identity_mtx) (lined 1) = (Inr (), lined 2)"
  "renderer_request test_env 1 1 (Some identity_mtx) (lined 2) = (Inr (), lined 3)"
  "renderer_request test_env 1 1 (Some identity_mtx) (lined 3) = (Inr (), lined 4)"
  "renderer_request test_env 1 1 (Some identity_mtx) (lined 4) = (Inr (), lined 5)"
  "renderer_request test_env 1 1 (Some identity_mtx) (lined 5) = (Inr (), lined 6)"
  "renderer_request test_env 1 1 (Some identity_mtx) (lined 6) = (Inr (), lined 7)"
  "renderer_request test_env 1 1 (Some identity_mtx) (lined 7) = (Inr (), lined 8)"
  "renderer_request test_env 1 1 (Some identity_mtx) (lined 8) = (Inr (), lined 9)"
  "renderer_request test_env 1 1 (Some identity_mtx) (lined 9) = (Inr (), lined 10)"
  by (simp_all add: eval_ops prims fixtures fun_eq_iff replicate_numeral_unfold)

lemma run_request_eleventh:
  "renderer_request test_env 1 1 (Some identity_mtx) (lined 10)
     = (Inl (Undefined ''invalid request pointer''), broken_queue)"
  by (simp add: eval_ops prims fixtures fun_eq_iff replicate_numeral_unfold)

lemma request_times_numeral:
  "request_times (numeral n) this w =
     and_then (request_times (pred_numeral n) this w) (\<lambda>_ w.
     renderer_request test_env this 1 (Some identity_mtx) w)"
  by (simp add: numeral_eq_Suc)

lemma request_times_1:
  "request_times 1 this w = renderer_request test_env this 1 (Some identity_mtx) w"
  by (simp add: and_then_def)

lemma run_ten_requests: "request_times 10 1 ready_world = (Inr (), lined 10)"
  by (simp add: request_times_numeral request_times_1 and_then_def run_request_start
      run_request_next del: One_nat_def)

lemma run_eleven_requests:
  "request_times 11 1 ready_world = (Inl (Undefined ''invalid request pointer''), broken_queue)"
  by (simp add: request_times_numeral request_times_1 and_then_def run_request_start
      run_request_next run_request_eleventh del: One_nat_def)

lemma register_tilted:
  "renderer_register_mesh test_env 1 (Some tilted) 3 (Some [9]) 1 red_material queued_world
     = (Inr 2, tilted_world)"
  by (simp add: eval_ops prims fixtures third_world_def mesh_c_def tilted_world_def tilted_def
      fun_eq_iff)

lemma render_tilted: "renderer_render 1 tilted_world = (Inr (), tilted_drawn_world)"
  by (simp add: eval_ops prims fixtures third_world_def mesh_c_def third_drawn_world_def
      drawn_world_def tilted_world_def tilted_drawn_world_def fun_eq_iff)

lemma render_broken_queue:
  "renderer_render 1 broken_queue = (Inl (Undefined ''invalid request pointer''), broken_queue)"
  by (simp add: eval_ops prims fixtures fun_eq_iff replicate_numeral_unfold)

lemma can_register_third:
  "can_register test_env queued_world queued_renderer triangle 3 [9] 1"
  by (simp add: can_register_def mesh_array_def deref_def fixtures sizeof_vertex_def)

lemma queued_in_bounds:
  "list_all (in_bounds queued_world queued_renderer) [0..<unat (n_requests queued_renderer)]"
  "list_all (in_bounds third_world (queued_renderer\<lparr>n_meshes := 3\<rparr>))
     [0..<unat (n_requests (queued_renderer\<lparr>n_meshes := 3\<rparr>))]"
  by (simp_all add: in_bounds_def request_array_def mesh_array_def deref_def fixtures
      third_world_def upt_rec)

section \<open>Claims\<close>

text \<open>
  Claim C1. Mesh 0 is a triangle whose vertices lie in buffer 3; a third mesh with other
  vertices is registered last, into buffer 6. The request for mesh 0 gets the eight calls
  in the claimed order, with mesh 0's matrix, material, texture and vertex count, but its
  draw call fetches from the context's descriptor, which designates buffer 6: the three
  vertices drawn are those of the mesh registered last, not those of mesh 0.
\<close>

theorem render_draws_other_mesh_vertices:
  "renderer_register_mesh test_env 1 (Some tilted) 3 (Some [9]) 1 red_material queued_world
     = (Inr 2, tilted_world) \<and>
   renderer_render 1 tilted_world = (Inr (), tilted_drawn_world) \<and>
   request_array tilted_world (queued_renderer\<lparr>n_meshes := 3\<rparr>) ! 1
     = \<lparr>mesh_id = 0, model = shift_mtx\<rparr> \<and>
   mesh_array tilted_world (queued_renderer\<lparr>n_meshes := 3\<rparr>) ! 0 = mesh_a \<and>
   vbo_data mesh_a = 3 \<and>
   deref tilted_world 3 = Some (VertexBlock 96 triangle) \<and>
   deref tilted_world 6 = Some (VertexBlock 96 tilted) \<and>
   drop (length (gpu_log tilted_world) + 8) (gpu_log tilted_drawn_world) =
     [C3D_FVUnifMtx4x4 GPU_VERTEX_SHADER 0 identity_mtx,
      C3D_FVUnifMtx4x4 GPU_VERTEX_SHADER 4 shift_mtx,
      C3D_FVUnifMtx4x4 GPU_VERTEX_SHADER 11 (mtx_of_material zero_material),
      C3D_FVUnifSet GPU_VERTEX_SHADER 8 0 0 (- 1) 0,
      C3D_FVUnifSet GPU_VERTEX_SHADER 9 0 0 (- 1) 0,
      C3D_FVUnifSet GPU_VERTEX_SHADER 10 1 1 1 1,
      C3D_TexBind 0 (texture mesh_a),
      C3D_DrawArrays GPU_TRIANGLES 0 3
        [\<lparr>buf_data = 6, buf_stride = 32, buf_attrib_count = 3, buf_permutation = 0x210\<rparr>]]"
  apply (intro conjI)
         apply (rule register_tilted)
        apply (rule render_tilted)
       apply (simp_all add: request_array_def mesh_array_def deref_def tilted_world_def
      tilted_drawn_world_def third_world_def third_drawn_world_def queued_world_def
      queued_renderer_def ready_world_def ready_renderer_def mesh_a_def)
  done

text \<open>
  Claim C2. From the freshly initialised renderer ten registrations return the handles
  0 to 9, and handle \<open>j\<close> then resolves to the mesh with vertex buffer \<open>3 + j\<close>. The
  eleventh registration, the first to grow the registry, does not return: \<open>new_mesh\<close>
  has passed the element count 15 to \<open>realloc\<close> as the byte size, the array it gets holds
  no mesh, and the write to slot 10 lies outside it. At that point none of the handles 0
  to 9 resolves to a mesh any more.
\<close>

theorem registry_growth_loses_handles:
  "renderer_init test_env boot = (Inr 1, init_world) \<and>
   register_triangles 10 1 init_world = (Inr [0, 1, 2, 3, 4, 5, 6, 7, 8, 9], stocked 10) \<and>
   mesh_array (stocked 10) (ready_renderer\<lparr>n_meshes := 10\<rparr>) = map mesh_at [3, 4, 5, 6, 7, 8, 9, 10, 11, 12] \<and>
   register_triangles 11 1 init_world
     = (Inl (Undefined ''mesh index out of bounds''), grown_registry) \<and>
   get_renderer grown_registry 1 = Some grown_renderer \<and>
   mesh_array grown_registry grown_renderer = []"
  apply (intro conjI)
       apply (rule run_init)
      apply (rule run_ten_registrations)
     apply (simp add: mesh_array_def deref_def stocked_def ready_renderer_def upt_rec)
    apply (rule run_eleven_registrations)
   apply (simp_all add: get_renderer_def mesh_array_def deref_def stocked_def grown_registry_def
      grown_renderer_def ready_renderer_def)
  done

text \<open>
  Claim C3. With ten meshes registered the registry is full. The \<open>new_mesh\<close> of the next
  registration sets the capacity to 15 and reallocates the array to 15 bytes, not to 15
  meshes: the ten registered meshes are gone from the new array, which has room for
  none, and the old array is freed.
\<close>

theorem registry_growth_drops_meshes:
  "get_renderer (stocked 10) 1 = Some (ready_renderer\<lparr>n_meshes := 10\<rparr>) \<and>
   capacity_meshes (ready_renderer\<lparr>n_meshes := 10\<rparr>) = 10 \<and>
   deref (stocked 10) 2 = Some (MeshBlock 1000 (map mesh_at [3, 4, 5, 6, 7, 8, 9, 10, 11, 12])) \<and>
   new_mesh test_env 1 (stocked 10) = (Inr 10, grown_registry) \<and>
   get_renderer grown_registry 1 = Some grown_renderer \<and>
   capacity_meshes grown_renderer = 15 \<and> meshes grown_renderer = 13 \<and>
   deref grown_registry 13 = Some (MeshBlock 15 []) \<and>
   deref grown_registry 2 = None"
  apply (intro conjI)
          apply (simp add: get_renderer_def deref_def stocked_def)
         apply (simp add: ready_renderer_def)
        apply (simp add: deref_def stocked_def upt_rec)
       apply (rule run_new_mesh_full)
      apply (simp_all add: get_renderer_def deref_def stocked_def grown_registry_def
      grown_renderer_def ready_renderer_def)
  done

text \<open>
  Claim C4. Eleven requests are enqueued in one frame. The first ten are stored in order;
  the eleventh \<open>renderer_request\<close> grows the queue, and does not return: the array it
  writes to has been freed. No draw call has reached the backend, and a
  \<open>renderer_render\<close> in the state of the fault draws nothing either.
\<close>

theorem eleven_requests_never_drawn:
  "enqueue_all test_env 1
     [(1, identity_mtx), (1, identity_mtx), (1, identity_mtx), (1, identity_mtx),
      (1, identity_mtx), (1, identity_mtx), (1, identity_mtx), (1, identity_mtx),
      (1, identity_mtx), (1, identity_mtx), (1, identity_mtx)] ready_world
     = (Inl (Undefined ''invalid request pointer''), broken_queue) \<and>
   filter is_draw (gpu_log broken_queue) = [] \<and>
   renderer_render 1 broken_queue
     = (Inl (Undefined ''invalid request pointer''), broken_queue)"
  apply (intro conjI)
    apply (simp add: and_then_def run_request_start run_request_next run_request_eleventh
      del: One_nat_def)
   apply (simp add: broken_queue_def lined_def ready_world_def)
  apply (rule render_broken_queue)
  done

text \<open>
  Claim C5. The queue holds ten requests and is full. The next \<open>renderer_request\<close>
  reallocates the queue to 15 bytes, not to 15 requests, and stores the new pointer in
  \<open>meshes\<close>: the registry pointer changes from 2 to 6, the queue pointer stays 5 and
  designates freed storage, the ten queued requests are gone, and the call does not return.
\<close>

theorem request_growth_breaks_registry:
  "get_renderer (lined 10) 1
     = Some (ready_renderer\<lparr>requests := 5, n_requests := 10, capacity_requests := 10\<rparr>) \<and>
   meshes ready_renderer = 2 \<and>
   request_array (lined 10)
       (ready_renderer\<lparr>requests := 5, n_requests := 10, capacity_requests := 10\<rparr>)
     = replicate 10 busy_request @ replicate 4 zero_request \<and>
   renderer_request test_env 1 1 (Some identity_mtx) (lined 10)
     = (Inl (Undefined ''invalid request pointer''), broken_queue) \<and>
   get_renderer broken_queue 1 = Some broken_renderer \<and>
   meshes broken_renderer = 6 \<and> requests broken_renderer = 5 \<and>
   capacity_requests broken_renderer = 15 \<and>
   deref broken_queue 5 = None \<and>
   deref broken_queue 6 = Some (RequestBlock 15 []) \<and>
   mesh_array broken_queue broken_renderer = []"
  apply (intro conjI)
            apply (simp add: get_renderer_def deref_def lined_def ready_world_def)
           apply (simp add: ready_renderer_def)
          apply (simp add: request_array_def deref_def lined_def ready_world_def
      ready_renderer_def)
         apply (rule run_request_eleventh)
        apply (simp_all add: get_renderer_def mesh_array_def deref_def lined_def
      broken_queue_def broken_renderer_def ready_world_def ready_renderer_def)
  done

text \<open>
  Claim C6. On a renderer whose queued requests all lie in the request array and name
  meshes in the mesh array, \<open>renderer_render\<close> returns, and the renderer then differs
  from the one before the call in \<open>n_requests\<close> alone, which is 0, whatever it was
  before; the queue's pointer, capacity and stored elements, and the mesh array, are as
  before.
\<close>

theorem render_clears_queue:
  assumes r: "get_renderer w this = Some r"
    and b: "list_all (in_bounds w r) [0..<unat (n_requests r)]"
  shows "\<exists>w'. renderer_render this w = (Inr (), w') \<and>
     get_renderer w' this = Some (r\<lparr>n_requests := 0\<rparr>) \<and>
     request_array w' (r\<lparr>n_requests := 0\<rparr>) = request_array w r \<and>
     mesh_array w' (r\<lparr>n_requests := 0\<rparr>) = mesh_array w r"
proof -
  let ?w1 = "emit (concat (map (\<lambda>i. debug_rows (requested_mesh w r i)) [0..<unat (n_requests r)]))
               (concat (map (request_calls w r) [0..<unat (n_requests r)])) w"
  from b have "\<forall>i < unat (n_requests r). in_bounds w r i"
    by (simp add: list_all_iff)
  then have ret: "renderer_render this w = (Inr (), put_renderer this (r\<lparr>n_requests := 0\<rparr>) ?w1)"
    by (rule renderer_render_returns [OF r])
  have r1: "get_renderer ?w1 this = Some r"
    using r by simp
  have "request_array ?w1 (r\<lparr>n_requests := 0\<rparr>) = request_array w r"
    and "mesh_array ?w1 (r\<lparr>n_requests := 0\<rparr>) = mesh_array w r"
    by (simp_all add: request_array_def mesh_array_def deref_def)
  then show ?thesis
    using get_renderer_put [OF r1] arrays_put_renderer [OF r1] by (simp add: ret)
qed

theorem render_clears_queue_witness:
  "get_renderer queued_world 1 = Some queued_renderer \<and>
   n_requests queued_renderer = 2 \<and>
   list_all (in_bounds queued_world queued_renderer) [0..<unat (n_requests queued_renderer)] \<and>
   renderer_render 1 queued_world = (Inr (), drawn_world) \<and>
   get_renderer drawn_world 1 = Some (queued_renderer\<lparr>n_requests := 0\<rparr>) \<and>
   request_array drawn_world (queued_renderer\<lparr>n_requests := 0\<rparr>)
     = request_array queued_world queued_renderer"
  using render_clears_queue [OF get_renderer_fixtures(2) queued_in_bounds(1)]
    get_renderer_fixtures(2) queued_in_bounds(1) render_queued
  by (simp add: queued_renderer_def)

text \<open>
  Claim C7. A call of \<open>renderer_register_mesh\<close> with \<open>n_vertices = 0\<close> or with
  \<open>texture_size = 0\<close> panics, and the state at the panic is the state before the call:
  nothing was allocated and no field of the registry was written.
\<close>

theorem register_rejects_empty:
  assumes "n_vertices = 0 \<or> texture_size = 0"
  shows "\<exists>line msg. renderer_register_mesh E this vertices n_vertices texture_data texture_size mat w
     = (Inl (Panic line msg), w)"
  using assms by (auto simp: renderer_register_mesh_def panic_def)

theorem register_rejects_empty_witness:
  "renderer_register_mesh test_env 1 (Some []) 0 (Some [1, 2]) 2 zero_material ready_world
     = (Inl (Panic 94 ''n_vertices was zero!''), ready_world) \<and>
   renderer_register_mesh test_env 1 (Some triangle) 3 (Some []) 0 zero_material ready_world
     = (Inl (Panic 95 ''texture_size was zero!''), ready_world)"
  using register_rejects_empty [of 0 2 test_env 1 "Some []" "Some [1, 2]" zero_material ready_world]
    register_rejects_empty [of 3 0 test_env 1 "Some triangle" "Some []" zero_material ready_world]
  by (simp add: renderer_register_mesh_def panic_def)

text \<open>
  Claim C8. With an empty queue \<open>renderer_render\<close> returns and leaves the whole state
  as it was: no call reaches the backend and neither the registry nor any other storage
  changes.
\<close>

theorem render_empty_queue:
  assumes "get_renderer w this = Some r" and "n_requests r = 0"
  shows "renderer_render this w = (Inr (), w)"
proof -
  have "this \<noteq> 0"
    using assms(1) by (simp add: get_renderer_Some)
  moreover have "render_loop this 0 w = (Inr (), w)"
    using assms by (simp add: render_loop.simps)
  moreover have "r\<lparr>n_requests := 0\<rparr> = r"
    using assms(2) by simp
  ultimately show ?thesis
    using assms(1)
    by (simp add: renderer_render_def and_then_def update_this_def put_renderer_same)
qed

theorem render_empty_queue_witness:
  "get_renderer ready_world 1 = Some ready_renderer \<and> n_requests ready_renderer = 0 \<and>
   renderer_render 1 ready_world = (Inr (), ready_world)"
proof -
  have n: "n_requests ready_renderer = 0"
    by (simp add: ready_renderer_def)
  show ?thesis
    using render_empty_queue [OF get_renderer_fixtures(1) n] get_renderer_fixtures(1) n by simp
qed

text \<open>
  Claim C9. A registration whose arguments are in order and for which there is room
  returns the new handle and leaves the context's single buffer descriptor holding
  exactly the new mesh's vertex buffer; the mesh's \<open>buf_info\<close> is the pointer to that
  shared descriptor. A later \<open>renderer_render\<close>, with no registration in between, issues
  no \<open>C3D_SetBufInfo\<close> and leaves the descriptor as it is, whether it returns or not,
  and every draw call it makes fetches from that descriptor, whichever mesh the request
  names. It returns exactly when every queued request is in bounds, and then it has
  drawn every request.
\<close>

theorem draws_use_last_registered_buffer:
  assumes r0: "get_renderer w0 this = Some r0"
    and can: "can_register E w0 r0 vs nv td ts"
    and reg: "renderer_register_mesh E this (Some vs) nv (Some td) ts mat w0 = (res, w1)"
    and between: "ctx_buf_info w2 = ctx_buf_info w1"
    and r2: "get_renderer w2 this = Some r2"
    and rend: "renderer_render this w2 = (out, w3)"
  shows "res = Inr (n_meshes r0) \<and>
     (\<exists>r1. get_renderer w1 this = Some r1 \<and>
        ctx_buf_info w1 = [\<lparr>buf_data = vbo_data (mesh_array w1 r1 ! unat (n_meshes r0)),
             buf_stride = sizeof_vertex, buf_attrib_count = 3, buf_permutation = 0x210\<rparr>] \<and>
        buf_info (mesh_array w1 r1 ! unat (n_meshes r0)) = C3D_GetBufInfo E) \<and>
     filter is_buffer_bind (drop (length (gpu_log w2)) (gpu_log w3)) = [] \<and>
     filter is_draw (drop (length (gpu_log w2)) (gpu_log w3)) =
       map (\<lambda>i. C3D_DrawArrays GPU_TRIANGLES 0 (vertex_count (requested_mesh w2 r2 i))
              (ctx_buf_info w1)) (processed w2 r2) \<and>
     ctx_buf_info w3 = ctx_buf_info w1 \<and>
     (out = Inr () \<longleftrightarrow> list_all (in_bounds w2 r2) [0..<unat (n_requests r2)]) \<and>
     (out = Inr () \<longrightarrow> processed w2 r2 = [0..<unat (n_requests r2)])"
proof -
  from register_returns [OF r0 can, where mat = mat] reg have res: "res = Inr (n_meshes r0)"
    by auto
  note desc = register_descriptor [OF reg [unfolded res] r0]
  note outcome = renderer_render_outcome [OF r2 rend]
  have binds: "filter is_buffer_bind (concat (map (request_calls w2 r2) (processed w2 r2))) = []"
    by (simp add: filter_concat_map request_calls_def filter_bind_calls)
  have draws: "filter is_draw (concat (map (request_calls w2 r2) (processed w2 r2))) =
      map (\<lambda>i. C3D_DrawArrays GPU_TRIANGLES 0 (vertex_count (requested_mesh w2 r2 i))
              (ctx_buf_info w2)) (processed w2 r2)"
    by (simp add: filter_concat_map request_calls_def filter_draw_calls concat_map_singleton)
  have all: "out = Inr () \<longrightarrow> processed w2 r2 = [0..<unat (n_requests r2)]"
    using outcome(3) by (simp add: processed_def takeWhile_all list_all_iff)
  show ?thesis
    using desc all by (simp add: res outcome binds draws between)
qed

theorem draws_use_last_registered_buffer_witness:
  "get_renderer queued_world 1 = Some queued_renderer \<and>
   can_register test_env queued_world queued_renderer triangle 3 [9] 1 \<and>
   renderer_register_mesh test_env 1 (Some triangle) 3 (Some [9]) 1 red_material queued_world
     = (Inr 2, third_world) \<and>
   renderer_render 1 third_world = (Inr (), third_drawn_world) \<and>
   vbo_data mesh_a = 3 \<and> vbo_data mesh_b = 4 \<and>
   filter is_buffer_bind (drop (length (gpu_log third_world)) (gpu_log third_drawn_world)) = [] \<and>
   filter is_draw (drop (length (gpu_log third_world)) (gpu_log third_drawn_world)) =
     [C3D_DrawArrays GPU_TRIANGLES 0 (vertex_count mesh_b)
        [\<lparr>buf_data = 6, buf_stride = 32, buf_attrib_count = 3, buf_permutation = 0x210\<rparr>],
      C3D_DrawArrays GPU_TRIANGLES 0 (vertex_count mesh_a)
        [\<lparr>buf_data = 6, buf_stride = 32, buf_attrib_count = 3, buf_permutation = 0x210\<rparr>]]"
  using draws_use_last_registered_buffer [OF get_renderer_fixtures(2) can_register_third
      register_third refl get_renderer_fixtures(3) render_third]
    get_renderer_fixtures(2) can_register_third register_third render_third
  by (simp add: third_world_def third_drawn_world_def drawn_world_def queued_world_def
      ready_world_def mesh_a_def mesh_b_def)



end
